theory Spec2Isabelle
  imports Main "HOL-Library.Word"
begin

section \<open>Data model of the GOFPID pipeline\<close>

text \<open>
  The class \<^verbatim>\<open>GOFPID\<close> of \<^verbatim>\<open>src/pygofpid/gofpid.py\<close> builds a pipeline out of
  OpenCV collaborators: a blur filter, a background subtractor and morphological
  operators. Images are numpy arrays of bytes; the configuration is held in Python
  dictionaries which the caller passes by reference, so the dictionaries live in an
  explicit store and the pipeline object only holds their addresses.
\<close>

record ndarray =
  shape :: "nat list"
  data :: "8 word list"

datatype callable = GaussianBlur | Blur | Erode | Dilate | Callable nat

datatype val =
    VNone
  | VStr string
  | VInt int
  | VTuple "int list"
  | VArray ndarray
  | VFun callable

datatype message =
  BlurNoFun | UnknownBackgroundSubtraction | MatMorphNoFun | AmbiguousTruthValue

datatype error =
    ValueError message
  | AttributeError
  | TypeError
  | CvError nat

type_synonym pydict = "(string \<times> val) list"
type_synonym addr = nat
type_synonym heap = "addr \<Rightarrow> pydict"

text \<open>\<^verbatim>\<open>k in d.keys()\<close>, \<^verbatim>\<open>d.get(k)\<close> (\<^verbatim>\<open>None\<close> for a missing key) and \<^verbatim>\<open>d[k] = v\<close>
  (an existing key keeps its place, a new key goes last).\<close>

definition dict_has :: "pydict \<Rightarrow> string \<Rightarrow> bool" where
  "dict_has d k = (map_of d k \<noteq> None)"

definition dict_get :: "pydict \<Rightarrow> string \<Rightarrow> val" where
  "dict_get d k = (case map_of d k of None \<Rightarrow> VNone | Some v \<Rightarrow> v)"

fun dict_set :: "pydict \<Rightarrow> string \<Rightarrow> val \<Rightarrow> pydict" where
  "dict_set [] k v = [(k, v)]"
| "dict_set ((k', v') # d) k v =
     (if k' = k then (k, v) # d else (k', v') # dict_set d k v)"

text \<open>The OpenCV constants the source refers to: \<^verbatim>\<open>cv.BORDER_DEFAULT\<close> is 4, and
  \<^verbatim>\<open>cv.getStructuringElement(cv.MORPH_RECT, (5, 5))\<close> is a 5 by 5 array of ones.\<close>

definition BORDER_DEFAULT :: val where
  "BORDER_DEFAULT = VInt 4"

definition rect_5x5 :: val where
  "rect_5x5 = VArray \<lparr>shape = [5, 5], data = replicate 25 1\<rparr>"

text \<open>
  The OpenCV collaborators are parameters of the model. A background subtractor is a
  value of type \<open>'bg\<close> (its learned model); \<open>bs_apply\<close> is its method \<^verbatim>\<open>apply\<close>, which
  returns a mask or raises, and leaves an updated model either way. \<open>cv_call f x args\<close>
  is what the call \<^verbatim>\<open>f(x, *args)\<close> of a function on an array returns or raises. The
  function is handed the array itself, not a copy: \<open>cv_writes f x args\<close> is what the
  same call leaves in the array \<open>x\<close> it was given (\<open>x\<close> again for a function that
  does not write into its source).
\<close>

record 'bg cv =
  createBackgroundSubtractorMOG2 :: "'bg"
  createBackgroundSubtractorKNN :: "'bg"
  bs_apply :: "'bg \<Rightarrow> ndarray \<Rightarrow> (error + ndarray) \<times> 'bg"
  cv_call :: "callable \<Rightarrow> ndarray \<Rightarrow> val list \<Rightarrow> error + ndarray"
  cv_writes :: "callable \<Rightarrow> ndarray \<Rightarrow> val list \<Rightarrow> ndarray"

text \<open>
  The object: its three constructor parameters, and the two attributes that exist only
  once they have been assigned (\<^verbatim>\<open>_frg_detect_mth\<close> by \<^verbatim>\<open>fit\<close>, \<^verbatim>\<open>motion_mask_\<close> by
  \<^verbatim>\<open>predict\<close>); \<open>None\<close> in these two fields is the absent attribute. In \<open>blur\<close> and
  \<open>mat_morph\<close>, \<open>None\<close> is Python's \<^verbatim>\<open>None\<close>.
\<close>

record 'bg gofpid =
  blur :: "addr option"
  frg_detect :: val
  mat_morph :: "addr list option"
  frg_detect_mth :: "'bg option"
  motion_mask :: "ndarray option"

type_synonym 'bg state = "heap \<times> 'bg gofpid"

definition init :: "addr option \<Rightarrow> val \<Rightarrow> addr list option \<Rightarrow> 'bg gofpid" where
  "init b f m =
     \<lparr>blur = b, frg_detect = f, mat_morph = m, frg_detect_mth = None, motion_mask = None\<rparr>"

section \<open>fit\<close>

text \<open>Lines 90 to 96: an empty dictionary is falsy, like \<^verbatim>\<open>None\<close>.\<close>

definition fit_blur :: "heap \<Rightarrow> addr option \<Rightarrow> error + heap" where
  "fit_blur h b =
     (case b of
        None \<Rightarrow> Inr h
      | Some a \<Rightarrow>
          if h a = [] then Inr h
          else if \<not> dict_has (h a) ''fun'' then Inl (ValueError BlurNoFun)
          else
            let h1 = (if \<not> dict_has (h a) ''ksize''
                      then h(a := dict_set (h a) ''ksize'' (VTuple [3, 3])) else h);
                h2 = (if \<not> dict_has (h1 a) ''borderType''
                      then h1(a := dict_set (h1 a) ''borderType'' BORDER_DEFAULT) else h1)
            in Inr h2)"

text \<open>Lines 98 to 103. When \<^verbatim>\<open>frg_detect\<close> is a numpy array, \<^verbatim>\<open>==\<close> compares element by
  element, and the test of line 98 raises numpy's \<^verbatim>\<open>ValueError\<close> (the truth value of an
  array with more than one element is ambiguous); the comparison of any other value
  with a string is true for that string only.\<close>

definition ambiguous :: "val \<Rightarrow> bool" where
  "ambiguous f = (case f of VArray a \<Rightarrow> 2 \<le> length (data a) | _ \<Rightarrow> False)"

definition fit_frg_detect :: "'bg cv \<Rightarrow> val \<Rightarrow> error + 'bg" where
  "fit_frg_detect env f =
     (if ambiguous f then Inl (ValueError AmbiguousTruthValue)
      else if f = VStr ''MOG2'' then Inr (createBackgroundSubtractorMOG2 env)
      else if f = VStr ''KNN'' then Inr (createBackgroundSubtractorKNN env)
      else Inl (ValueError UnknownBackgroundSubtraction))"

text \<open>Lines 106 to 113: the loop over the entries. What it has written into earlier
  entries stays written when a later entry raises.\<close>

fun fit_mat_morph :: "heap \<Rightarrow> addr list \<Rightarrow> (error + unit) \<times> heap" where
  "fit_mat_morph h [] = (Inr (), h)"
| "fit_mat_morph h (d # ds) =
     (if \<not> dict_has (h d) ''fun'' then (Inl (ValueError MatMorphNoFun), h)
      else fit_mat_morph
             (if \<not> dict_has (h d) ''kernel''
              then h(d := dict_set (h d) ''kernel'' rect_5x5) else h) ds)"

definition fit :: "'bg cv \<Rightarrow> 'bg state \<Rightarrow> (error + unit) \<times> 'bg state" where
  "fit env s =
     (case s of (h, p) \<Rightarrow>
        (case fit_blur h (blur p) of
           Inl e \<Rightarrow> (Inl e, (h, p))
         | Inr h1 \<Rightarrow>
             (case fit_frg_detect env (frg_detect p) of
                Inl e \<Rightarrow> (Inl e, (h1, p))
              | Inr bg \<Rightarrow>
                  let p1 = p\<lparr>frg_detect_mth := Some bg\<rparr> in
                  (case mat_morph p of
                     None \<Rightarrow> (Inr (), (h1, p1))
                   | Some ds \<Rightarrow>
                       if ds = [] then (Inr (), (h1, p1))
                       else (case fit_mat_morph h1 ds of
                               (r, h2) \<Rightarrow> (r, (h2, p1)))))))"

section \<open>predict\<close>

text \<open>Calling a value: only a function object can be called, anything else
  (\<^verbatim>\<open>None\<close> from \<^verbatim>\<open>get\<close> on a missing key in particular) raises \<^verbatim>\<open>TypeError\<close>.\<close>

definition call :: "'bg cv \<Rightarrow> val \<Rightarrow> ndarray \<Rightarrow> val list \<Rightarrow> error + ndarray" where
  "call env f x args = (case f of VFun c \<Rightarrow> cv_call env c x args | _ \<Rightarrow> Inl TypeError)"

text \<open>Lines 131 to 136, the denoiser.\<close>

definition denoise :: "'bg cv \<Rightarrow> heap \<Rightarrow> addr option \<Rightarrow> ndarray \<Rightarrow> error + ndarray" where
  "denoise env h b X =
     (case b of
        None \<Rightarrow> Inr X
      | Some a \<Rightarrow>
          if h a = [] then Inr X
          else call env (dict_get (h a) ''fun'') X
                 [dict_get (h a) ''ksize'', dict_get (h a) ''borderType''])"

text \<open>The same lines, seen from the caller: what the array \<^verbatim>\<open>X\<close> it passed to
  \<^verbatim>\<open>predict\<close> holds after them. The lines assign to the local name only; the array is
  handed to the function under \<^verbatim>\<open>fun\<close>, and calling a value that is no function raises
  before anything runs.\<close>

definition denoise_leaves :: "'bg cv \<Rightarrow> heap \<Rightarrow> addr option \<Rightarrow> ndarray \<Rightarrow> ndarray" where
  "denoise_leaves env h b X =
     (case b of
        None \<Rightarrow> X
      | Some a \<Rightarrow>
          if h a = [] then X
          else (case dict_get (h a) ''fun'' of
                  VFun c \<Rightarrow>
                    cv_writes env c X [dict_get (h a) ''ksize'', dict_get (h a) ''borderType'']
                | _ \<Rightarrow> X))"

text \<open>Lines 142 to 144, the mask refiner: the loop, and the test that guards it.\<close>

fun refine_loop :: "'bg cv \<Rightarrow> heap \<Rightarrow> addr list \<Rightarrow> ndarray \<Rightarrow> error + ndarray" where
  "refine_loop env h [] msk = Inr msk"
| "refine_loop env h (d # ds) msk =
     (case call env (dict_get (h d) ''fun'') msk [dict_get (h d) ''kernel''] of
        Inl e \<Rightarrow> Inl e
      | Inr msk' \<Rightarrow> refine_loop env h ds msk')"

definition refine :: "'bg cv \<Rightarrow> heap \<Rightarrow> addr list option \<Rightarrow> ndarray \<Rightarrow> error + ndarray" where
  "refine env h m msk =
     (case m of
        None \<Rightarrow> Inr msk
      | Some ds \<Rightarrow> if ds = [] then Inr msk else refine_loop env h ds msk)"

text \<open>\<^verbatim>\<open>np.any\<close> on an array of bytes, and lines 152 to 155.\<close>

definition np_any :: "ndarray \<Rightarrow> bool" where
  "np_any a = list_ex (\<lambda>x. x \<noteq> 0) (data a)"

definition decide :: "ndarray \<Rightarrow> int" where
  "decide msk = (if np_any msk then 1 else 0)"

definition predict :: "'bg cv \<Rightarrow> 'bg state \<Rightarrow> ndarray \<Rightarrow> (error + int) \<times> 'bg state" where
  "predict env s X =
     (case s of (h, p) \<Rightarrow>
        (case denoise env h (blur p) X of
           Inl e \<Rightarrow> (Inl e, (h, p))
         | Inr X1 \<Rightarrow>
             (case frg_detect_mth p of
                None \<Rightarrow> (Inl AttributeError, (h, p))
              | Some bg \<Rightarrow>
                  (case bs_apply env bg X1 of
                     (Inl e, bg') \<Rightarrow> (Inl e, (h, p\<lparr>frg_detect_mth := Some bg'\<rparr>))
                   | (Inr msk, bg') \<Rightarrow>
                       let p1 = p\<lparr>frg_detect_mth := Some bg'\<rparr> in
                       (case refine env h (mat_morph p) msk of
                          Inl e \<Rightarrow> (Inl e, (h, p1))
                        | Inr msk' \<Rightarrow>
                            (Inr (decide msk'), (h, p1\<lparr>motion_mask := Some msk'\<rparr>)))))))"

section \<open>Callers\<close>

text \<open>A caller feeding frames one after the other; each call's outcome is recorded,
  a raised error included.\<close>

fun run :: "'bg cv \<Rightarrow> 'bg state \<Rightarrow> ndarray list \<Rightarrow> (error + int) list \<times> 'bg state" where
  "run env s [] = ([], s)"
| "run env s (X # Xs) =
     (case predict env s X of
        (r, s') \<Rightarrow> (case run env s' Xs of (rs, s'') \<Rightarrow> (r # rs, s'')))"

text \<open>
  The default arguments of \<^verbatim>\<open>__init__\<close> (lines 60 to 75) are evaluated once, when the
  class is defined: every object constructed without arguments refers to the same
  three dictionaries, here at the addresses 0, 1 and 2 of the store.
\<close>

definition default_heap :: heap where
  "default_heap =
     (\<lambda>_. [])
       (0 := [(''fun'', VFun GaussianBlur), (''ksize'', VTuple [3, 3]),
              (''borderType'', BORDER_DEFAULT)],
        1 := [(''fun'', VFun Erode), (''kernel'', rect_5x5)],
        2 := [(''fun'', VFun Dilate), (''kernel'', rect_5x5)])"

definition init_default :: "'bg gofpid" where
  "init_default = init (Some 0) (VStr ''MOG2'') (Some [1, 2])"

text \<open>
  The states of an object whose attributes are assigned by \<^verbatim>\<open>__init__\<close>, \<^verbatim>\<open>fit\<close> and
  \<^verbatim>\<open>predict\<close> only: constructed, then any calls of \<^verbatim>\<open>fit\<close> and \<^verbatim>\<open>predict\<close>, while
  the caller, who holds the dictionaries, may write anything into them between two
  calls.
\<close>

inductive reachable :: "'bg cv \<Rightarrow> 'bg state \<Rightarrow> bool" for env :: "'bg cv" where
  r_init: "reachable env (h, init b f m)"
| r_fit: "reachable env s \<Longrightarrow> fit env s = (r, s') \<Longrightarrow> reachable env s'"
| r_predict: "reachable env s \<Longrightarrow> predict env s X = (r, s') \<Longrightarrow> reachable env s'"
| r_caller: "reachable env (h, p) \<Longrightarrow> reachable env (h', p)"

section \<open>Configurations by value\<close>

text \<open>The contents of the dictionaries an object refers to.\<close>

type_synonym config = "pydict option \<times> val \<times> pydict list option"

definition config :: "heap \<Rightarrow> 'bg gofpid \<Rightarrow> config" where
  "config h p = (map_option h (blur p), frg_detect p, map_option (map h) (mat_morph p))"

text \<open>The defaults of \<^verbatim>\<open>fit\<close>, by key.\<close>

definition default_of :: "string \<Rightarrow> val option" where
  "default_of k =
     (if k = ''ksize'' then Some (VTuple [3, 3])
      else if k = ''borderType'' then Some BORDER_DEFAULT
      else if k = ''kernel'' then Some rect_5x5
      else None)"

text \<open>\<open>defaulted h h'\<close>: the store \<open>h'\<close> is \<open>h\<close> where some dictionaries that have the key
  \<^verbatim>\<open>fun\<close> have gained default entries for keys they did not have.\<close>

definition defaulted :: "heap \<Rightarrow> heap \<Rightarrow> bool" where
  "defaulted h h' \<longleftrightarrow>
     (\<forall>a. (h' a = [] \<longleftrightarrow> h a = []) \<and>
          (\<forall>k. if dict_has (h a) k
               then dict_has (h' a) k \<and> dict_get (h' a) k = dict_get (h a) k
               else dict_has (h' a) k \<longrightarrow>
                      dict_has (h a) ''fun'' \<and> default_of k = Some (dict_get (h' a) k)))"

text \<open>A configuration that passes the checks of \<^verbatim>\<open>fit\<close> with nothing left to default.\<close>

definition blur_ready :: "heap \<Rightarrow> addr option \<Rightarrow> bool" where
  "blur_ready h b =
     (case b of
        None \<Rightarrow> True
      | Some a \<Rightarrow>
          h a = [] \<or>
          (dict_has (h a) ''fun'' \<and> dict_has (h a) ''ksize'' \<and> dict_has (h a) ''borderType''))"

definition mat_morph_ready :: "heap \<Rightarrow> addr list option \<Rightarrow> bool" where
  "mat_morph_ready h m =
     (case m of
        None \<Rightarrow> True
      | Some ds \<Rightarrow> list_all (\<lambda>d. dict_has (h d) ''fun'' \<and> dict_has (h d) ''kernel'') ds)"

text \<open>What \<^verbatim>\<open>predict\<close> reads from the dictionaries.\<close>

definition blur_args :: "pydict \<Rightarrow> bool \<times> val \<times> val \<times> val" where
  "blur_args d = (d = [], dict_get d ''fun'', dict_get d ''ksize'', dict_get d ''borderType'')"

definition mat_morph_args :: "pydict \<Rightarrow> val \<times> val" where
  "mat_morph_args d = (dict_get d ''fun'', dict_get d ''kernel'')"

definition reads ::
  "heap \<Rightarrow> 'bg gofpid \<Rightarrow> (bool \<times> val \<times> val \<times> val) option \<times> (val \<times> val) list option" where
  "reads h p =
     (map_option (\<lambda>a. blur_args (h a)) (blur p),
      map_option (map (\<lambda>d. mat_morph_args (h d))) (mat_morph p))"

text \<open>The same, as a function of the contents the dictionaries had before \<^verbatim>\<open>fit\<close>:
  a missing entry reads as its default.\<close>

definition get_or_default :: "pydict \<Rightarrow> string \<Rightarrow> val" where
  "get_or_default d k =
     (if dict_has d k then dict_get d k
      else (case default_of k of None \<Rightarrow> VNone | Some v \<Rightarrow> v))"

definition resolved_blur :: "pydict \<Rightarrow> bool \<times> val \<times> val \<times> val" where
  "resolved_blur d =
     (if d = [] then blur_args d
      else (False, dict_get d ''fun'', get_or_default d ''ksize'',
            get_or_default d ''borderType''))"

definition resolved_mat_morph :: "pydict \<Rightarrow> val \<times> val" where
  "resolved_mat_morph d = (dict_get d ''fun'', get_or_default d ''kernel'')"

definition resolve ::
  "config \<Rightarrow> (bool \<times> val \<times> val \<times> val) option \<times> (val \<times> val) list option" where
  "resolve c =
     (case c of (b, f, m) \<Rightarrow>
        (map_option resolved_blur b, map_option (map resolved_mat_morph) m))"

text \<open>The checks of \<^verbatim>\<open>fit\<close> in the order it makes them, on the contents.\<close>

definition validate :: "config \<Rightarrow> error + unit" where
  "validate c =
     (case c of (b, f, m) \<Rightarrow>
        if (case b of None \<Rightarrow> False | Some d \<Rightarrow> d \<noteq> [] \<and> \<not> dict_has d ''fun'')
        then Inl (ValueError BlurNoFun)
        else if ambiguous f
        then Inl (ValueError AmbiguousTruthValue)
        else if f \<noteq> VStr ''MOG2'' \<and> f \<noteq> VStr ''KNN''
        then Inl (ValueError UnknownBackgroundSubtraction)
        else if (case m of None \<Rightarrow> False | Some ds \<Rightarrow> \<not> list_all (\<lambda>d. dict_has d ''fun'') ds)
        then Inl (ValueError MatMorphNoFun)
        else Inr ())"

section \<open>A concrete collaborator\<close>

text \<open>
  To run the model on examples: a background subtractor that remembers the previous
  frame and marks the bytes that differ from it (none on the first frame), a blur that
  returns its argument, an erosion that clears the mask unless every byte is set, a
  dilation that fills the mask when some byte is set, a function (number 0) that clears
  the array it is given in place and returns it, and other functions that raise. Only
  function 0 writes into its source.
\<close>

definition diff_mask :: "ndarray option \<Rightarrow> ndarray \<Rightarrow> ndarray" where
  "diff_mask bg X =
     (case bg of
        None \<Rightarrow> X\<lparr>data := map (\<lambda>_. 0) (data X)\<rparr>
      | Some B \<Rightarrow> X\<lparr>data := map (\<lambda>(x, b). if x = b then 0 else 255) (zip (data X) (data B))\<rparr>)"

definition toy_call :: "callable \<Rightarrow> ndarray \<Rightarrow> val list \<Rightarrow> error + ndarray" where
  "toy_call c x args =
     (case c of
        GaussianBlur \<Rightarrow> Inr x
      | Blur \<Rightarrow> Inr x
      | Erode \<Rightarrow> Inr (if list_all (\<lambda>b. b \<noteq> 0) (data x) then x
                      else x\<lparr>data := map (\<lambda>_. 0) (data x)\<rparr>)
      | Dilate \<Rightarrow> Inr (if list_ex (\<lambda>b. b \<noteq> 0) (data x)
                       then x\<lparr>data := map (\<lambda>_. 255) (data x)\<rparr> else x)
      | Callable n \<Rightarrow> if n = 0 then Inr (x\<lparr>data := map (\<lambda>_. 0) (data x)\<rparr>) else Inl (CvError n))"

definition toy_writes :: "callable \<Rightarrow> ndarray \<Rightarrow> val list \<Rightarrow> ndarray" where
  "toy_writes c x args =
     (case c of
        Callable n \<Rightarrow> if n = 0 then x\<lparr>data := map (\<lambda>_. 0) (data x)\<rparr> else x
      | _ \<Rightarrow> x)"

definition toy_cv :: "ndarray option cv" where
  "toy_cv =
     \<lparr>createBackgroundSubtractorMOG2 = None,
      createBackgroundSubtractorKNN = None,
      bs_apply = (\<lambda>bg X. (Inr (diff_mask bg X), Some X)),
      cv_call = toy_call,
      cv_writes = toy_writes\<rparr>"

definition frame_a :: ndarray where
  "frame_a = \<lparr>shape = [2, 2], data = [7, 7, 7, 7]\<rparr>"

definition frame_b :: ndarray where
  "frame_b = \<lparr>shape = [2, 2], data = [7, 9, 7, 7]\<rparr>"

definition frame_c :: ndarray where
  "frame_c = \<lparr>shape = [2, 2], data = [9, 9, 9, 9]\<rparr>"

text \<open>The same collaborator with two constructors that differ: the \<^verbatim>\<open>KNN\<close> subtractor
  starts from a black frame.\<close>

definition toy_cv_knn :: "ndarray option cv" where
  "toy_cv_knn =
     toy_cv\<lparr>createBackgroundSubtractorKNN := Some \<lparr>shape = [2, 2], data = [0, 0, 0, 0]\<rparr>\<rparr>"

section \<open>Stages and states, for the proofs\<close>

text \<open>One operator entry applied to the outcome so far: an error ends the chain.\<close>

definition refine_step ::
  "'bg cv \<Rightarrow> heap \<Rightarrow> error + ndarray \<Rightarrow> addr \<Rightarrow> error + ndarray" where
  "refine_step env h r d =
     (case r of
        Inl e \<Rightarrow> Inl e
      | Inr x \<Rightarrow> call env (dict_get (h d) ''fun'') x [dict_get (h d) ''kernel''])"

text \<open>A state in which \<^verbatim>\<open>predict\<close> raises: no mask, and either no background
  subtractor or an operator entry without \<^verbatim>\<open>fun\<close>.\<close>

definition unusable :: "'bg state \<Rightarrow> bool" where
  "unusable s =
     (case s of (h, p) \<Rightarrow>
        motion_mask p = None \<and>
        (frg_detect_mth p = None \<or>
         (case mat_morph p of
            None \<Rightarrow> False
          | Some ds \<Rightarrow> \<not> list_all (\<lambda>d. dict_has (h d) ''fun'') ds)))"

text \<open>In every state of an object, a background subtractor is bound only if
  \<^verbatim>\<open>frg_detect\<close> names a variant, and a mask is exposed only if a subtractor is bound.\<close>

definition bound_ok :: "'bg gofpid \<Rightarrow> bool" where
  "bound_ok p \<longleftrightarrow>
     (frg_detect_mth p = None \<and> motion_mask p = None) \<or>
     (frg_detect_mth p \<noteq> None \<and> (frg_detect p = VStr ''MOG2'' \<or> frg_detect p = VStr ''KNN''))"

text \<open>The caller writes the kernel into every operator entry that lacks one.\<close>

definition explicit_kernels :: "heap \<Rightarrow> addr list \<Rightarrow> heap" where
  "explicit_kernels h ds =
     (\<lambda>a. if a \<in> set ds \<and> \<not> dict_has (h a) ''kernel''
          then dict_set (h a) ''kernel'' rect_5x5 else h a)"

section \<open>Examples\<close>

text \<open>A store with dictionaries that lack entries, and an object that refers to them.\<close>

definition example_heap :: heap where
  "example_heap =
     (\<lambda>_. [])
       (0 := [(''fun'', VFun GaussianBlur)],
        1 := [(''fun'', VFun Erode)],
        2 := [(''fun'', VFun Dilate), (''kernel'', VNone)],
        4 := [(''ksize'', VTuple [5, 5])],
        5 := [(''kernel'', rect_5x5)],
        6 := [(''fun'', VFun GaussianBlur)],
        7 := [(''fun'', VFun Dilate), (''kernel'', VNone)],
        8 := [(''fun'', VFun Erode)],
        9 := [(''fun'', VFun (Callable 0)), (''ksize'', VTuple [3, 3]),
              (''borderType'', BORDER_DEFAULT)])"

definition example_gofpid :: "ndarray option gofpid" where
  "example_gofpid = init (Some 0) (VStr ''KNN'') (Some [2, 1])"

text \<open>A second object, configured alike through dictionaries of its own.\<close>

definition twin_gofpid :: "ndarray option gofpid" where
  "twin_gofpid = init (Some 6) (VStr ''KNN'') (Some [7, 8])"

text \<open>The state \<^verbatim>\<open>fit\<close> leaves the example in; an object with an operator entry that has no
  \<^verbatim>\<open>fun\<close> (the dictionary at address 5); an object with an unknown variant.\<close>

definition example_fitted :: "ndarray option state" where
  "example_fitted =
     (example_heap
        (0 := [(''fun'', VFun GaussianBlur), (''ksize'', VTuple [3, 3]),
               (''borderType'', BORDER_DEFAULT)],
         1 := [(''fun'', VFun Erode), (''kernel'', rect_5x5)]),
      example_gofpid\<lparr>frg_detect_mth := Some None\<rparr>)"

definition broken_gofpid :: "ndarray option gofpid" where
  "broken_gofpid = init None (VStr ''MOG2'') (Some [1, 5])"

definition unknown_gofpid :: "ndarray option gofpid" where
  "unknown_gofpid = init (Some 0) (VStr ''GMG'') None"

text \<open>An object whose \<^verbatim>\<open>blur\<close> is the empty dictionary at address 3, and one whose
  \<^verbatim>\<open>blur\<close> has a \<^verbatim>\<open>ksize\<close> but no \<^verbatim>\<open>fun\<close>.\<close>

definition empty_blur_gofpid :: "ndarray option gofpid" where
  "empty_blur_gofpid = init (Some 3) (VStr ''MOG2'') None"

definition no_fun_blur_gofpid :: "ndarray option gofpid" where
  "no_fun_blur_gofpid = init (Some 4) (VStr ''MOG2'') None"

text \<open>Two masks; the default dictionaries after a caller has removed entries from two of
  them, and with the entries back.\<close>

definition zeros_2x2 :: ndarray where
  "zeros_2x2 = \<lparr>shape = [2, 2], data = [0, 0, 0, 0]\<rparr>"

definition ones_2x2 :: ndarray where
  "ones_2x2 = \<lparr>shape = [2, 2], data = [255, 255, 255, 255]\<rparr>"

definition stripped_heap :: heap where
  "stripped_heap = default_heap(0 := [(''fun'', VFun GaussianBlur)], 2 := [(''fun'', VFun Dilate)])"

definition restored_heap :: heap where
  "restored_heap =
     stripped_heap
       (0 := [(''fun'', VFun GaussianBlur), (''ksize'', VTuple [3, 3]),
              (''borderType'', BORDER_DEFAULT)],
        2 := [(''fun'', VFun Dilate), (''kernel'', rect_5x5)])"

section \<open>Dictionaries and the store\<close>

lemma ambiguous_simps [simp]:
  "\<not> ambiguous VNone" "\<not> ambiguous (VStr s)" "\<not> ambiguous (VInt i)"
  "\<not> ambiguous (VTuple t)" "\<not> ambiguous (VFun c)"
  "ambiguous (VArray a) \<longleftrightarrow> 2 \<le> length (data a)"
  by (simp_all add: ambiguous_def)

lemma map_of_dict_set: "map_of (dict_set d k v) = (map_of d)(k \<mapsto> v)"
  by (induction d) (auto simp: fun_eq_iff)

lemma dict_has_dict_set [simp]: "dict_has (dict_set d k v) k' \<longleftrightarrow> k' = k \<or> dict_has d k'"
  by (simp add: dict_has_def map_of_dict_set)

lemma dict_get_dict_set [simp]:
  "dict_get (dict_set d k v) k' = (if k' = k then v else dict_get d k')"
  by (simp add: dict_get_def map_of_dict_set)

lemma dict_set_not_Nil [simp]: "dict_set d k v \<noteq> []"
  by (cases d) (auto split: if_splits)

lemma dict_has_Nil [simp]: "\<not> dict_has [] k"
  by (simp add: dict_has_def)

lemma defaulted_refl [simp]: "defaulted h h"
  by (simp add: defaulted_def)

lemma default_of_fun [simp]: "default_of ''fun'' = None"
  by (simp add: default_of_def)

lemma defaulted_has: "defaulted h h' \<Longrightarrow> dict_has (h a) k \<Longrightarrow> dict_has (h' a) k"
  unfolding defaulted_def by metis

lemma defaulted_get: "defaulted h h' \<Longrightarrow> dict_has (h a) k \<Longrightarrow> dict_get (h' a) k = dict_get (h a) k"
  unfolding defaulted_def by metis

lemma defaulted_new:
  "defaulted h h' \<Longrightarrow> \<not> dict_has (h a) k \<Longrightarrow> dict_has (h' a) k \<Longrightarrow>
     dict_has (h a) ''fun'' \<and> default_of k = Some (dict_get (h' a) k)"
  unfolding defaulted_def by metis

lemma defaulted_Nil: "defaulted h h' \<Longrightarrow> h' a = [] \<longleftrightarrow> h a = []"
  unfolding defaulted_def by metis

lemma defaulted_fun: "defaulted h h' \<Longrightarrow> dict_has (h' a) ''fun'' = dict_has (h a) ''fun''"
  using defaulted_has [of h h' a "''fun''"] defaulted_new [of h h' a "''fun''"] by auto

lemma defaultedI:
  assumes "\<And>a. h' a = [] \<longleftrightarrow> h a = []"
    and "\<And>a k. dict_has (h a) k \<Longrightarrow> dict_has (h' a) k \<and> dict_get (h' a) k = dict_get (h a) k"
    and "\<And>a k. \<not> dict_has (h a) k \<Longrightarrow> dict_has (h' a) k \<Longrightarrow>
           dict_has (h a) ''fun'' \<and> default_of k = Some (dict_get (h' a) k)"
  shows "defaulted h h'"
  unfolding defaulted_def using assms by auto

lemma defaulted_trans:
  assumes "defaulted h h1" and "defaulted h1 h2"
  shows "defaulted h h2"
proof (rule defaultedI)
  fix a
  show "h2 a = [] \<longleftrightarrow> h a = []"
    using assms by (simp add: defaulted_Nil)
next
  fix a k
  assume "dict_has (h a) k"
  then show "dict_has (h2 a) k \<and> dict_get (h2 a) k = dict_get (h a) k"
    using assms by (simp add: defaulted_has defaulted_get)
next
  fix a k
  assume n: "\<not> dict_has (h a) k" and y: "dict_has (h2 a) k"
  show "dict_has (h a) ''fun'' \<and> default_of k = Some (dict_get (h2 a) k)"
  proof (cases "dict_has (h1 a) k")
    case True
    then have "dict_get (h2 a) k = dict_get (h1 a) k"
      using assms(2) by (simp add: defaulted_get)
    then show ?thesis
      using defaulted_new [OF assms(1) n True] by simp
  next
    case False
    then have "dict_has (h1 a) ''fun'' \<and> default_of k = Some (dict_get (h2 a) k)"
      using defaulted_new [OF assms(2) _ y] by simp
    then show ?thesis
      using defaulted_fun [OF assms(1)] by simp
  qed
qed

lemma defaulted_upd:
  assumes "dict_has (h a) ''fun''" and "\<not> dict_has (h a) k" and "default_of k = Some v"
  shows "defaulted h (h(a := dict_set (h a) k v))"
proof (rule defaultedI)
  fix b
  show "(h(a := dict_set (h a) k v)) b = [] \<longleftrightarrow> h b = []"
    using assms(1) by auto
next
  fix b k'
  assume "dict_has (h b) k'"
  then show "dict_has ((h(a := dict_set (h a) k v)) b) k' \<and>
             dict_get ((h(a := dict_set (h a) k v)) b) k' = dict_get (h b) k'"
    using assms(2) by auto
next
  fix b k'
  assume "\<not> dict_has (h b) k'" and "dict_has ((h(a := dict_set (h a) k v)) b) k'"
  then show "dict_has (h b) ''fun'' \<and>
             default_of k' = Some (dict_get ((h(a := dict_set (h a) k v)) b) k')"
    using assms by (auto split: if_splits)
qed

lemma fit_blur_defaulted:
  assumes "fit_blur h b = Inr h1"
  shows "defaulted h h1"
proof (cases b)
  case None
  with assms show ?thesis by (simp add: fit_blur_def)
next
  case (Some a)
  show ?thesis
  proof (cases "h a = [] \<or> \<not> dict_has (h a) ''fun''")
    case True
    with assms Some show ?thesis by (auto simp: fit_blur_def split: if_splits)
  next
    case False
    let ?h1 = "if \<not> dict_has (h a) ''ksize''
               then h(a := dict_set (h a) ''ksize'' (VTuple [3, 3])) else h"
    let ?h2 = "if \<not> dict_has (?h1 a) ''borderType''
               then ?h1(a := dict_set (?h1 a) ''borderType'' BORDER_DEFAULT) else ?h1"
    have eq: "h1 = ?h2"
      using assms Some False by (simp add: fit_blur_def Let_def)
    have 1: "defaulted h ?h1"
      using False by (simp add: defaulted_upd default_of_def)
    have "dict_has (?h1 a) ''fun''"
      using False by simp
    then have 2: "defaulted ?h1 ?h2"
      by (simp add: defaulted_upd default_of_def del: fun_upd_apply)
    show ?thesis
      unfolding eq using 1 2 by (rule defaulted_trans)
  qed
qed

lemma fit_mat_morph_defaulted: "fit_mat_morph h ds = (r, h2) \<Longrightarrow> defaulted h h2"
proof (induction ds arbitrary: h)
  case Nil
  then show ?case by simp
next
  case (Cons d ds)
  show ?case
  proof (cases "dict_has (h d) ''fun''")
    case False
    with Cons.prems show ?thesis by simp
  next
    case True
    let ?h = "if \<not> dict_has (h d) ''kernel''
              then h(d := dict_set (h d) ''kernel'' rect_5x5) else h"
    have "defaulted h ?h"
      using True by (simp add: defaulted_upd default_of_def)
    moreover have "defaulted ?h h2"
      using Cons.prems True by (intro Cons.IH) simp
    ultimately show ?thesis by (rule defaulted_trans)
  qed
qed


subsection \<open>What fit leaves unchanged, and what it establishes\<close>

lemma fit_fields:
  assumes "fit env (h, p) = (r, (h', p'))"
  shows "blur p' = blur p \<and> frg_detect p' = frg_detect p \<and> mat_morph p' = mat_morph p
         \<and> motion_mask p' = motion_mask p"
  using assms
  by (auto simp: fit_def Let_def split: sum.splits option.splits if_splits prod.splits)

lemma fit_defaulted:
  assumes "fit env (h, p) = (r, (h', p'))"
  shows "defaulted h h'"
  using assms
  by (auto simp: fit_def Let_def split: sum.splits option.splits if_splits prod.splits
      dest: fit_blur_defaulted fit_mat_morph_defaulted intro: defaulted_trans)

lemma fit_blur_ready: "fit_blur h b = Inr h1 \<Longrightarrow> blur_ready h1 b"
  by (auto simp: fit_blur_def blur_ready_def Let_def split: option.splits if_splits)

lemma blur_ready_defaulted: "blur_ready h b \<Longrightarrow> defaulted h h' \<Longrightarrow> blur_ready h' b"
  by (auto simp: blur_ready_def defaulted_Nil defaulted_has split: option.splits)

lemma fit_mat_morph_ready:
  "fit_mat_morph h ds = (Inr (), h2) \<Longrightarrow>
     list_all (\<lambda>d. dict_has (h2 d) ''fun'' \<and> dict_has (h2 d) ''kernel'') ds"
proof (induction ds arbitrary: h)
  case Nil
  then show ?case by simp
next
  case (Cons d ds)
  let ?h = "if \<not> dict_has (h d) ''kernel''
            then h(d := dict_set (h d) ''kernel'' rect_5x5) else h"
  from Cons.prems have f: "dict_has (h d) ''fun''" and rest: "fit_mat_morph ?h ds = (Inr (), h2)"
    by (auto split: if_splits)
  have "dict_has (?h d) ''fun''" "dict_has (?h d) ''kernel''"
    using f by auto
  moreover have "defaulted ?h h2"
    using rest by (rule fit_mat_morph_defaulted)
  ultimately have "dict_has (h2 d) ''fun'' \<and> dict_has (h2 d) ''kernel''"
    by (simp add: defaulted_has del: fun_upd_apply)
  then show ?case
    using Cons.IH [OF rest] by simp
qed

lemma fit_mat_morph_fixed:
  "list_all (\<lambda>d. dict_has (h d) ''fun'' \<and> dict_has (h d) ''kernel'') ds \<Longrightarrow>
     fit_mat_morph h ds = (Inr (), h)"
  by (induction ds) auto

lemma fit_blur_fixed: "blur_ready h b \<Longrightarrow> fit_blur h b = Inr h"
  by (auto simp: fit_blur_def blur_ready_def Let_def split: option.splits)

lemma fit_returned:
  assumes "fit env (h, p) = (Inr (), (h', p'))"
  shows "blur_ready h' (blur p) \<and> mat_morph_ready h' (mat_morph p) \<and>
         (\<exists>bg. fit_frg_detect env (frg_detect p) = Inr bg \<and> p' = p\<lparr>frg_detect_mth := Some bg\<rparr>)"
proof -
  from assms obtain h1 bg where b: "fit_blur h (blur p) = Inr h1"
    and f: "fit_frg_detect env (frg_detect p) = Inr bg"
    and p': "p' = p\<lparr>frg_detect_mth := Some bg\<rparr>"
    and m: "mat_morph p = None \<and> h' = h1 \<or> mat_morph p = Some [] \<and> h' = h1 \<or>
            (\<exists>ds. mat_morph p = Some ds \<and> fit_mat_morph h1 ds = (Inr (), h'))"
    by (auto simp: fit_def Let_def split: sum.splits option.splits if_splits prod.splits)
  have "defaulted h1 h'"
    using m by (auto dest: fit_mat_morph_defaulted)
  then have "blur_ready h' (blur p)"
    using fit_blur_ready [OF b] blur_ready_defaulted by blast
  moreover have "mat_morph_ready h' (mat_morph p)"
    using m by (auto simp: mat_morph_ready_def dest: fit_mat_morph_ready)
  ultimately show ?thesis
    using f p' by simp
qed

lemma fit_ready:
  assumes "blur_ready h (blur p)" and "mat_morph_ready h (mat_morph p)"
    and "fit_frg_detect env (frg_detect p) = Inr bg"
  shows "fit env (h, p) = (Inr (), (h, p\<lparr>frg_detect_mth := Some bg\<rparr>))"
  using assms
  by (auto simp: fit_def Let_def fit_blur_fixed fit_mat_morph_fixed mat_morph_ready_def
      split: option.splits)

subsection \<open>The outcome of fit is a function of the contents\<close>

lemma fit_blur_outcome:
  "(case fit_blur h b of Inl e \<Rightarrow> Inl e | Inr _ \<Rightarrow> Inr ()) =
     (if (case map_option h b of None \<Rightarrow> False | Some d \<Rightarrow> d \<noteq> [] \<and> \<not> dict_has d ''fun'')
      then Inl (ValueError BlurNoFun) else Inr ())"
  by (auto simp: fit_blur_def Let_def split: option.splits)

lemma fit_mat_morph_outcome:
  "fst (fit_mat_morph h ds) =
     (if list_all (\<lambda>d. dict_has (h d) ''fun'') ds then Inr ()
      else Inl (ValueError MatMorphNoFun))"
proof (induction ds arbitrary: h)
  case Nil
  then show ?case by simp
next
  case (Cons d ds)
  let ?h = "h(d := dict_set (h d) ''kernel'' rect_5x5)"
  have "\<And>a. dict_has (?h a) ''fun'' = dict_has (h a) ''fun''"
    by simp
  then have "list_all (\<lambda>d. dict_has (?h d) ''fun'') ds = list_all (\<lambda>d. dict_has (h d) ''fun'') ds"
    by (simp del: fun_upd_apply)
  then show ?case
    using Cons.IH [of h] Cons.IH [of ?h] by (simp del: fun_upd_apply)
qed

lemma fit_outcome: "fst (fit env (h, p)) = validate (config h p)"
proof (cases "fit_blur h (blur p)")
  case (Inl e)
  then show ?thesis
    using fit_blur_outcome [of h "blur p"]
    by (auto simp: fit_def validate_def config_def split: if_splits)
next
  case (Inr h1)
  then have b: "\<not> (case map_option h (blur p) of None \<Rightarrow> False
                   | Some d \<Rightarrow> d \<noteq> [] \<and> \<not> dict_has d ''fun'')"
    using fit_blur_outcome [of h "blur p"] by (auto split: if_splits)
  have d: "defaulted h h1"
    using Inr by (rule fit_blur_defaulted)
  have m: "\<And>ds. list_all (\<lambda>d. dict_has (h1 d) ''fun'') ds = list_all (\<lambda>d. dict_has d ''fun'') (map h ds)"
    by (simp add: list_all_iff defaulted_fun [OF d])
  show ?thesis
  proof (cases "fit_frg_detect env (frg_detect p)")
    case (Inl e)
    then show ?thesis
      using Inr b by (auto simp: fit_def validate_def config_def fit_frg_detect_def split: if_splits)
  next
    case (Inr bg)
    then have f: "\<not> (frg_detect p \<noteq> VStr ''MOG2'' \<and> frg_detect p \<noteq> VStr ''KNN'')"
        "\<not> ambiguous (frg_detect p)"
      by (auto simp: fit_frg_detect_def split: if_splits)
    show ?thesis
    proof (cases "mat_morph p")
      case None
      then show ?thesis
        using \<open>fit_blur h (blur p) = Inr h1\<close> Inr b f
        by (simp add: fit_def validate_def config_def)
    next
      case (Some ds)
      have "fst (fit env (h, p)) = (if ds = [] then Inr () else fst (fit_mat_morph h1 ds))"
        using \<open>fit_blur h (blur p) = Inr h1\<close> Inr Some
        by (simp add: fit_def Let_def split: prod.splits)
      also have "\<dots> = fst (fit_mat_morph h1 ds)"
        by simp
      also have "\<dots> = (if list_all (\<lambda>d. dict_has d ''fun'') (map h ds) then Inr ()
                        else Inl (ValueError MatMorphNoFun))"
        by (simp only: fit_mat_morph_outcome m)
      also have "\<dots> = validate (config h p)"
        using b f Some by (simp add: validate_def config_def)
      finally show ?thesis .
    qed
  qed
qed

subsection \<open>predict\<close>

lemma predict_fields:
  assumes "predict env (h, p) X = (r, (h', p'))"
  shows "h' = h \<and> blur p' = blur p \<and> frg_detect p' = frg_detect p \<and> mat_morph p' = mat_morph p"
  using assms
  by (auto simp: predict_def Let_def split: sum.splits option.splits prod.splits)

lemma predict_raised:
  assumes "predict env (h, p) X = (Inl e, (h', p'))"
  shows "motion_mask p' = motion_mask p"
  using assms
  by (auto simp: predict_def Let_def split: sum.splits option.splits prod.splits)

lemma predict_returned:
  assumes "predict env (h, p) X = (Inr v, (h', p'))"
  shows "\<exists>msk. motion_mask p' = Some msk \<and> v = decide msk"
  using assms
  by (auto simp: predict_def Let_def split: sum.splits option.splits prod.splits)

lemma denoise_reads:
  "map_option (\<lambda>a. blur_args (h a)) b = map_option (\<lambda>a. blur_args (h' a)) b' \<Longrightarrow>
     denoise env h b X = denoise env h' b' X"
  by (auto simp: denoise_def blur_args_def split: option.splits)

lemma refine_loop_reads:
  "map (\<lambda>d. mat_morph_args (h d)) ds = map (\<lambda>d. mat_morph_args (h' d)) ds' \<Longrightarrow>
     refine_loop env h ds msk = refine_loop env h' ds' msk"
proof (induction ds arbitrary: ds' msk)
  case Nil
  then show ?case by simp
next
  case (Cons d ds)
  then obtain d' es where ds': "ds' = d' # es"
    and hd: "mat_morph_args (h d) = mat_morph_args (h' d')"
    and tl: "map (\<lambda>d. mat_morph_args (h d)) ds = map (\<lambda>d. mat_morph_args (h' d)) es"
    by (cases ds') auto
  show ?case
    using hd Cons.IH [OF tl] by (simp add: ds' mat_morph_args_def split: sum.splits)
qed

lemma refine_reads:
  "map_option (map (\<lambda>d. mat_morph_args (h d))) m = map_option (map (\<lambda>d. mat_morph_args (h' d))) m' \<Longrightarrow>
     refine env h m msk = refine env h' m' msk"
  by (cases m; cases m') (auto simp: refine_def dest: refine_loop_reads)

text \<open>Two objects whose dictionaries read the same and whose subtractors are in the
  same state answer the same, and stay so.\<close>

lemma predict_reads:
  assumes "reads h p = reads h' q" and "frg_detect_mth p = frg_detect_mth q"
    and "predict env (h, p) X = (r, (h1, p1))" and "predict env (h', q) X = (r', (h1', q1))"
  shows "r' = r \<and> frg_detect_mth p1 = frg_detect_mth q1 \<and> reads h1 p1 = reads h1' q1"
proof -
  have d: "denoise env h (blur p) X = denoise env h' (blur q) X"
    using assms(1) by (intro denoise_reads) (simp add: reads_def)
  have m: "\<And>msk. refine env h (mat_morph p) msk = refine env h' (mat_morph q) msk"
    using assms(1) by (intro refine_reads) (simp add: reads_def)
  have "r' = r \<and> frg_detect_mth p1 = frg_detect_mth q1"
    using assms(2-4) d m
    by (auto simp: predict_def Let_def split: sum.splits option.splits prod.splits)
  moreover have "reads h1 p1 = reads h p" "reads h1' q1 = reads h' q"
    using predict_fields [OF assms(3)] predict_fields [OF assms(4)] by (simp_all add: reads_def)
  ultimately show ?thesis
    using assms(1) by simp
qed

lemma fst_run_Cons:
  "fst (run env s (X # Xs)) = fst (predict env s X) # fst (run env (snd (predict env s X)) Xs)"
  by (simp split: prod.splits)

lemma run_reads:
  assumes "reads h p = reads h' q" and "frg_detect_mth p = frg_detect_mth q"
  shows "fst (run env (h, p) Xs) = fst (run env (h', q) Xs)"
  using assms
proof (induction Xs arbitrary: h p h' q)
  case Nil
  then show ?case by simp
next
  case (Cons X Xs)
  obtain r h1 p1 where 1: "predict env (h, p) X = (r, (h1, p1))"
    by (metis prod.exhaust)
  obtain r' h1' q1 where 2: "predict env (h', q) X = (r', (h1', q1))"
    by (metis prod.exhaust)
  from predict_reads [OF Cons.prems 1 2]
  have "r' = r" and "fst (run env (h1, p1) Xs) = fst (run env (h1', q1) Xs)"
    by (auto intro: Cons.IH)
  then show ?case
    using 1 2 by (simp only: fst_run_Cons fst_conv snd_conv)
qed

subsection \<open>After fit, predict reads the configuration with its defaults\<close>

lemma dict_get_missing: "\<not> dict_has d k \<Longrightarrow> dict_get d k = VNone"
  by (simp add: dict_has_def dict_get_def)

lemma defaulted_get_or_default:
  assumes "defaulted h h'" and "dict_has (h' a) k"
  shows "dict_get (h' a) k = get_or_default (h a) k"
proof (cases "dict_has (h a) k")
  case True
  then show ?thesis
    using assms(1) by (simp add: get_or_default_def defaulted_get)
next
  case False
  then show ?thesis
    using defaulted_new [OF assms(1) False assms(2)] by (simp add: get_or_default_def)
qed

lemma defaulted_get_fun:
  assumes "defaulted h h'"
  shows "dict_get (h' a) ''fun'' = dict_get (h a) ''fun''"
proof (cases "dict_has (h a) ''fun''")
  case True
  then show ?thesis
    using assms by (simp add: defaulted_get)
next
  case False
  then have "\<not> dict_has (h' a) ''fun''"
    using assms by (simp add: defaulted_fun)
  then show ?thesis
    using False by (simp add: dict_get_missing)
qed

lemma blur_args_resolved:
  assumes "defaulted h h'" and "blur_ready h' (Some a)"
  shows "blur_args (h' a) = resolved_blur (h a)"
proof (cases "h a = []")
  case True
  then have "h' a = []"
    using assms(1) by (simp add: defaulted_Nil)
  then show ?thesis
    using True by (simp add: resolved_blur_def)
next
  case False
  then have n: "h' a \<noteq> []"
    using assms(1) by (simp add: defaulted_Nil)
  then have "dict_has (h' a) ''ksize''" "dict_has (h' a) ''borderType''"
    using assms(2) by (simp_all add: blur_ready_def)
  then show ?thesis
    using False n assms(1)
    by (simp add: blur_args_def resolved_blur_def defaulted_get_or_default defaulted_get_fun)
qed

lemma mat_morph_args_resolved:
  assumes "defaulted h h'" and "dict_has (h' d) ''kernel''"
  shows "mat_morph_args (h' d) = resolved_mat_morph (h d)"
  using assms
  by (simp add: mat_morph_args_def resolved_mat_morph_def defaulted_get_or_default
      defaulted_get_fun)

lemma reads_resolve:
  assumes "defaulted h h'" and "blur_ready h' (blur p)" and "mat_morph_ready h' (mat_morph p)"
  shows "reads h' p = resolve (config h p)"
proof -
  have "map_option (\<lambda>a. blur_args (h' a)) (blur p) = map_option resolved_blur (map_option h (blur p))"
    using assms(1,2) by (cases "blur p") (simp_all add: blur_args_resolved)
  moreover have "map_option (map (\<lambda>d. mat_morph_args (h' d))) (mat_morph p)
                 = map_option (map resolved_mat_morph) (map_option (map h) (mat_morph p))"
    using assms(1,3)
    by (cases "mat_morph p")
       (auto simp: mat_morph_ready_def list_all_iff mat_morph_args_resolved)
  ultimately show ?thesis
    by (simp add: reads_def resolve_def config_def)
qed

lemma fit_reads:
  assumes "fit env (h, p) = (Inr (), (h', p'))"
  shows "reads h' p' = resolve (config h p)"
proof -
  have "reads h' p' = reads h' p"
    using fit_fields [OF assms] by (simp add: reads_def)
  also have "\<dots> = resolve (config h p)"
    using fit_defaulted [OF assms] fit_returned [OF assms] by (intro reads_resolve) simp_all
  finally show ?thesis .
qed

text \<open>Two objects that were fitted on configurations which resolve to the same
  values answer the same on every sequence of frames.\<close>

lemma fit_run_resolved:
  assumes c: "resolve (config h p) = resolve (config h' q)"
    and f: "frg_detect q = frg_detect p"
    and 1: "fit env (h, p) = (Inr (), s1)"
    and 2: "fit env (h', q) = (Inr (), s2)"
  shows "fst (run env s2 Xs) = fst (run env s1 Xs)"
proof -
  obtain h1 p1 h2 q2 where s: "s1 = (h1, p1)" "s2 = (h2, q2)"
    by (metis prod.exhaust)
  have "reads h2 q2 = reads h1 p1"
    using fit_reads [of env h p h1 p1] fit_reads [of env h' q h2 q2] 1 2 s c by simp
  moreover have "frg_detect_mth q2 = frg_detect_mth p1"
    using fit_returned [of env h p h1 p1] fit_returned [of env h' q h2 q2] 1 2 s f by auto
  ultimately show ?thesis
    using s run_reads by blast
qed

subsection \<open>Defaults that are already there\<close>

lemma get_or_default_defaulted:
  assumes "defaulted h h'" and "default_of k \<noteq> None"
  shows "get_or_default (h' a) k = get_or_default (h a) k"
proof (cases "dict_has (h' a) k")
  case True
  then show ?thesis
    using defaulted_get_or_default [OF assms(1) True] by (simp add: get_or_default_def)
next
  case False
  then have "\<not> dict_has (h a) k"
    using assms(1) defaulted_has by blast
  then show ?thesis
    using False by (simp add: get_or_default_def)
qed

lemma resolved_blur_defaulted:
  assumes "defaulted h h'"
  shows "resolved_blur (h' a) = resolved_blur (h a)"
proof (cases "h a = []")
  case True
  then have "h' a = []"
    using assms by (simp add: defaulted_Nil)
  then show ?thesis
    using True by simp
next
  case False
  then have "h' a \<noteq> []"
    using assms by (simp add: defaulted_Nil)
  then show ?thesis
    using False assms
    by (simp add: resolved_blur_def defaulted_get_fun get_or_default_defaulted default_of_def)
qed

lemma resolved_mat_morph_defaulted:
  "defaulted h h' \<Longrightarrow> resolved_mat_morph (h' a) = resolved_mat_morph (h a)"
  by (simp add: resolved_mat_morph_def defaulted_get_fun get_or_default_defaulted default_of_def)

lemma resolve_defaulted:
  "defaulted h h' \<Longrightarrow> resolve (config h' q) = resolve (config h q)"
  by (cases "blur q"; cases "mat_morph q")
     (simp_all add: resolve_def config_def resolved_blur_defaulted resolved_mat_morph_defaulted)

lemma validate_defaulted:
  "defaulted h h' \<Longrightarrow> validate (config h' q) = validate (config h q)"
  by (cases "blur q"; cases "mat_morph q")
     (simp_all add: validate_def config_def defaulted_Nil defaulted_fun list_all_iff)

text \<open>An object whose dictionaries hold what those of another held, up to defaults that
  \<^verbatim>\<open>fit\<close> has inserted since, is fitted with the same outcome and then answers the same.\<close>

lemma fit_outcome_defaulted:
  assumes "config h0 q = config h p" and "defaulted h0 h'"
  shows "fst (fit env (h', q)) = fst (fit env (h, p))"
  using assms by (simp add: fit_outcome validate_defaulted)

lemma fit_run_defaulted:
  assumes c: "config h0 q = config h p" and d: "defaulted h0 h'"
    and 1: "fit env (h, p) = (Inr (), s1)"
  shows "\<exists>s2. fit env (h', q) = (Inr (), s2) \<and> fst (run env s2 Xs) = fst (run env s1 Xs)"
proof -
  have "fst (fit env (h', q)) = Inr ()"
    using fit_outcome_defaulted [OF c d, of env] 1 by simp
  then obtain s2 where 2: "fit env (h', q) = (Inr (), s2)"
    by (metis prod.collapse)
  have "resolve (config h p) = resolve (config h' q)"
    using c resolve_defaulted [OF d, of q] by simp
  moreover have "frg_detect q = frg_detect p"
    using c by (simp add: config_def)
  ultimately have "fst (run env s2 Xs) = fst (run env s1 Xs)"
    using 1 2 by (rule fit_run_resolved)
  then show ?thesis
    using 2 by blast
qed

lemma fit_returned_fun:
  assumes "fit env (h, p) = (Inr (), s1)" and "mat_morph p = Some ds" and "d \<in> set ds"
  shows "dict_has (h d) ''fun''"
proof -
  have "validate (config h p) = Inr ()"
    using fit_outcome [of env h p] assms(1) by simp
  then have "list_all (\<lambda>d. dict_has d ''fun'') (map h ds)"
    using assms(2) by (auto simp: validate_def config_def split: if_splits)
  then show ?thesis
    using assms(3) by (simp add: list_all_iff)
qed

lemma explicit_kernels_defaulted:
  assumes "\<And>d. d \<in> set ds \<Longrightarrow> dict_has (h d) ''fun''"
  shows "defaulted h (explicit_kernels h ds)"
proof (rule defaultedI)
  fix a
  show "explicit_kernels h ds a = [] \<longleftrightarrow> h a = []"
    using assms [of a] by (auto simp: explicit_kernels_def)
next
  fix a k
  assume "dict_has (h a) k"
  then show "dict_has (explicit_kernels h ds a) k \<and>
             dict_get (explicit_kernels h ds a) k = dict_get (h a) k"
    by (auto simp: explicit_kernels_def)
next
  fix a k
  assume "\<not> dict_has (h a) k" and "dict_has (explicit_kernels h ds a) k"
  then show "dict_has (h a) ''fun'' \<and> default_of k = Some (dict_get (explicit_kernels h ds a) k)"
    using assms [of a] by (auto simp: explicit_kernels_def default_of_def split: if_splits)
qed

subsection \<open>What fit writes\<close>

lemma fit_blur_passed:
  assumes "fit env (h, p) = (r, (h', p'))" and "blur p = Some a" and "dict_has (h a) ''fun''"
  shows "dict_has (h' a) ''ksize'' \<and> dict_has (h' a) ''borderType''"
proof -
  have "h a \<noteq> []"
    using assms(3) by auto
  then obtain h1 where b: "fit_blur h (blur p) = Inr h1"
    using assms(2,3) by (simp add: fit_blur_def Let_def)
  then have "defaulted h1 h'"
    using assms(1)
    by (auto simp: fit_def Let_def split: sum.splits option.splits if_splits prod.splits
        dest: fit_mat_morph_defaulted)
  moreover have "h1 a \<noteq> []"
    using fit_blur_defaulted [OF b] assms(3) defaulted_Nil by fastforce
  then have "dict_has (h1 a) ''ksize'' \<and> dict_has (h1 a) ''borderType''"
    using fit_blur_ready [OF b] assms(2) by (simp add: blur_ready_def)
  ultimately show ?thesis
    using defaulted_has by blast
qed

lemma fit_blur_values:
  assumes "fit env (h, p) = (r, (h', p'))" and "blur p = Some a" and "dict_has (h a) ''fun''"
  shows "dict_get (h' a) ''ksize'' =
           (if dict_has (h a) ''ksize'' then dict_get (h a) ''ksize'' else VTuple [3, 3]) \<and>
         dict_get (h' a) ''borderType'' =
           (if dict_has (h a) ''borderType'' then dict_get (h a) ''borderType''
            else BORDER_DEFAULT)"
  using fit_blur_passed [OF assms] defaulted_get_or_default [OF fit_defaulted [OF assms(1)]]
  by (simp add: get_or_default_def default_of_def)

lemma fit_kernel_values:
  assumes "fit env (h, p) = (Inr (), (h', p'))" and "mat_morph p = Some ds" and "d \<in> set ds"
  shows "dict_has (h' d) ''kernel'' \<and>
         dict_get (h' d) ''kernel'' =
           (if dict_has (h d) ''kernel'' then dict_get (h d) ''kernel'' else rect_5x5)"
proof -
  have "mat_morph_ready h' (mat_morph p)"
    using fit_returned [OF assms(1)] by simp
  then have k: "dict_has (h' d) ''kernel''"
    using assms(2,3) by (simp add: mat_morph_ready_def list_all_iff)
  then show ?thesis
    using defaulted_get_or_default [OF fit_defaulted [OF assms(1)] k]
    by (simp add: get_or_default_def default_of_def)
qed

section \<open>Evaluation on examples\<close>

lemmas model_defs = fit_def fit_blur_def fit_frg_detect_def ambiguous_def predict_def
  denoise_def denoise_leaves_def refine_def
  call_def decide_def np_any_def init_def init_default_def default_heap_def toy_cv_def
  toy_call_def toy_writes_def diff_mask_def frame_a_def frame_b_def frame_c_def example_heap_def
  example_gofpid_def
  dict_has_def dict_get_def BORDER_DEFAULT_def rect_5x5_def Let_def

lemmas example_defs = example_fitted_def broken_gofpid_def unknown_gofpid_def

lemma fit_example: "fit toy_cv (example_heap, example_gofpid) = (Inr (), example_fitted)"
  by (simp add: model_defs example_defs)

lemma fit_broken:
  "fit toy_cv (example_heap, broken_gofpid) =
     (Inl (ValueError MatMorphNoFun),
      (example_heap(1 := [(''fun'', VFun Erode), (''kernel'', rect_5x5)]),
       broken_gofpid\<lparr>frg_detect_mth := Some None\<rparr>))"
  by (simp add: model_defs example_defs)

lemma fit_unknown:
  "fit toy_cv (example_heap, unknown_gofpid) =
     (Inl (ValueError UnknownBackgroundSubtraction),
      (example_heap(0 := [(''fun'', VFun GaussianBlur), (''ksize'', VTuple [3, 3]),
                          (''borderType'', BORDER_DEFAULT)]),
       unknown_gofpid))"
  by (simp add: model_defs example_defs)

lemma run_example:
  "run toy_cv example_fitted [frame_a, frame_b] =
     ([Inr 0, Inr 1],
      (fst example_fitted,
       (snd example_fitted)\<lparr>frg_detect_mth := Some (Some frame_b), motion_mask := Some ones_2x2\<rparr>))"
  by (simp add: model_defs example_defs ones_2x2_def)

section \<open>The decision stage\<close>

lemma np_any_iff: "np_any a \<longleftrightarrow> (\<exists>x\<in>set (data a). x \<noteq> 0)"
  by (simp add: np_any_def list_ex_iff)

text \<open>
  Claim C1. Whenever the stages before it succeed and the mask refiner produces the
  mask \<open>msk\<close>, \<^verbatim>\<open>predict\<close> returns 1 if some byte of \<open>msk\<close> is not zero and 0 if all
  are zero, whatever the shape of the mask; \<open>msk\<close> is the mask it leaves in
  \<^verbatim>\<open>motion_mask_\<close>.
\<close>

theorem predict_verdict:
  assumes "denoise env h (blur p) X = Inr X1"
    and "frg_detect_mth p = Some bg"
    and "bs_apply env bg X1 = (Inr m0, bg')"
    and "refine env h (mat_morph p) m0 = Inr msk"
  shows "fst (predict env (h, p) X) = Inr (if \<exists>x\<in>set (data msk). x \<noteq> 0 then 1 else 0) \<and>
         ((\<forall>x\<in>set (data msk). x = 0) \<longrightarrow> fst (predict env (h, p) X) = Inr 0) \<and>
         motion_mask (snd (snd (predict env (h, p) X))) = Some msk"
  using assms by (simp add: predict_def decide_def np_any_iff)

theorem predict_verdict_witness:
  "denoise toy_cv default_heap (blur (init_default\<lparr>frg_detect_mth := Some (Some frame_a)\<rparr>)) frame_b
     = Inr frame_b \<and>
   bs_apply toy_cv (Some frame_a) frame_b
     = (Inr \<lparr>shape = [2, 2], data = [0, 255, 0, 0]\<rparr>, Some frame_b) \<and>
   refine toy_cv default_heap (Some [1, 2]) \<lparr>shape = [2, 2], data = [0, 255, 0, 0]\<rparr>
     = Inr zeros_2x2 \<and>
   fst (predict toy_cv (default_heap, init_default\<lparr>frg_detect_mth := Some (Some frame_a)\<rparr>) frame_b)
     = Inr 0 \<and>
   refine toy_cv default_heap None \<lparr>shape = [2, 2], data = [0, 255, 0, 0]\<rparr>
     = Inr \<lparr>shape = [2, 2], data = [0, 255, 0, 0]\<rparr> \<and>
   fst (predict toy_cv
          (default_heap, init (Some 0) (VStr ''MOG2'') None\<lparr>frg_detect_mth := Some (Some frame_a)\<rparr>)
          frame_b)
     = Inr 1"
proof -
  let ?p = "init_default\<lparr>frg_detect_mth := Some (Some frame_a)\<rparr> :: ndarray option gofpid"
  let ?q = "init (Some 0) (VStr ''MOG2'') None\<lparr>frg_detect_mth := Some (Some frame_a)\<rparr>
              :: ndarray option gofpid"
  let ?m = "\<lparr>shape = [2, 2], data = [0, 255, 0, 0]\<rparr> :: ndarray"
  have 1: "denoise toy_cv default_heap (blur ?p) frame_b = Inr frame_b"
    by (simp add: model_defs)
  have 2: "frg_detect_mth ?p = Some (Some frame_a)"
    by simp
  have 3: "bs_apply toy_cv (Some frame_a) frame_b = (Inr ?m, Some frame_b)"
    by (simp add: model_defs)
  have 4: "refine toy_cv default_heap (mat_morph ?p) ?m = Inr zeros_2x2"
    by (simp add: model_defs zeros_2x2_def)
  have 5: "mat_morph ?p = Some [1, 2] \<and> mat_morph ?q = None"
    by (simp add: model_defs)
  have 6: "denoise toy_cv default_heap (blur ?q) frame_b = Inr frame_b"
    by (simp add: model_defs)
  have 7: "frg_detect_mth ?q = Some (Some frame_a)"
    by simp
  have 8: "refine toy_cv default_heap (mat_morph ?q) ?m = Inr ?m"
    by (simp add: model_defs)
  show ?thesis
    using predict_verdict [OF 1 2 3 4] predict_verdict [OF 6 7 3 8] 1 3 4 5 8
    by (simp add: zeros_2x2_def)
qed

section \<open>The mask refiner\<close>

lemma refine_step_simps [simp]:
  "refine_step env h (Inl e) d = Inl e"
  "refine_step env h (Inr x) d = call env (dict_get (h d) ''fun'') x [dict_get (h d) ''kernel'']"
  by (simp_all add: refine_step_def)

lemma foldl_refine_step_Inl: "foldl (refine_step env h) (Inl e) ds = Inl e"
  by (induction ds) simp_all

lemma refine_loop_foldl: "refine_loop env h ds msk = foldl (refine_step env h) (Inr msk) ds"
proof (induction ds arbitrary: msk)
  case Nil
  then show ?case by simp
next
  case (Cons d ds)
  show ?case
  proof (cases "call env (dict_get (h d) ''fun'') msk [dict_get (h d) ''kernel'']")
    case (Inl e)
    then show ?thesis
      by (simp add: foldl_refine_step_Inl)
  next
    case (Inr x)
    then show ?thesis
      using Cons.IH [of x] by simp
  qed
qed

text \<open>
  Claim C3. \<^verbatim>\<open>predict\<close> passes the mask the background subtractor returned for the
  frame through the entries of \<^verbatim>\<open>mat_morph\<close>, from the first to the last, each applied
  to the outcome of the one before it (a left fold over the list the caller gave; an
  entry added at the end is applied last), and its verdict and \<^verbatim>\<open>motion_mask_\<close> are
  those of the last outcome; an error raised by an entry ends the call. For two entries:
  the second is called on what the first returned. The mask refiner returns its
  argument when \<^verbatim>\<open>mat_morph\<close> is \<^verbatim>\<open>None\<close> or empty. With the denoiser disabled as
  well, the mask \<^verbatim>\<open>predict\<close> leaves in \<^verbatim>\<open>motion_mask_\<close> is the very mask the background
  subtractor returned for the frame.
\<close>

theorem refine_in_order:
  "refine env h (Some ds) msk = foldl (refine_step env h) (Inr msk) ds \<and>
   refine env h (Some (ds @ [d])) msk = refine_step env h (refine env h (Some ds) msk) d \<and>
   refine env h None msk = Inr msk \<and>
   refine env h (Some []) msk = Inr msk \<and>
   (denoise env h (blur p) X = Inr X1 \<and> frg_detect_mth p = Some bg \<and>
    bs_apply env bg X1 = (Inr m0, bg') \<and> mat_morph p = Some ds \<longrightarrow>
      predict env (h, p) X =
        (case foldl (refine_step env h) (Inr m0) ds of
           Inl e \<Rightarrow> (Inl e, (h, p\<lparr>frg_detect_mth := Some bg'\<rparr>))
         | Inr m \<Rightarrow>
             (Inr (decide m), (h, p\<lparr>frg_detect_mth := Some bg', motion_mask := Some m\<rparr>)))) \<and>
   (denoise env h (blur p) X = Inr X1 \<and> frg_detect_mth p = Some bg \<and>
    bs_apply env bg X1 = (Inr m0, bg') \<and> mat_morph p = Some [d1, d2] \<and>
    call env (dict_get (h d1) ''fun'') m0 [dict_get (h d1) ''kernel''] = Inr m1 \<and>
    call env (dict_get (h d2) ''fun'') m1 [dict_get (h d2) ''kernel''] = Inr m2 \<longrightarrow>
      predict env (h, p) X =
        (Inr (decide m2), (h, p\<lparr>frg_detect_mth := Some bg', motion_mask := Some m2\<rparr>))) \<and>
   (blur p = None \<and> (mat_morph p = None \<or> mat_morph p = Some []) \<and>
    frg_detect_mth p = Some bg \<and> bs_apply env bg X = (Inr m0, bg') \<longrightarrow>
      predict env (h, p) X =
        (Inr (decide m0), (h, p\<lparr>frg_detect_mth := Some bg', motion_mask := Some m0\<rparr>)))"
proof -
  have 1: "\<And>ds msk. refine env h (Some ds) msk = foldl (refine_step env h) (Inr msk) ds"
    by (simp add: refine_def refine_loop_foldl)
  have 2: "refine env h (Some (ds @ [d])) msk = refine_step env h (refine env h (Some ds) msk) d"
    by (simp only: 1 foldl_append foldl.simps)
  have 3: "refine env h None msk = Inr msk" "refine env h (Some []) msk = Inr msk"
    by (simp_all add: refine_def)
  have 4: "predict env (h, p) X =
        (case foldl (refine_step env h) (Inr m0) ds of
           Inl e \<Rightarrow> (Inl e, (h, p\<lparr>frg_detect_mth := Some bg'\<rparr>))
         | Inr m \<Rightarrow>
             (Inr (decide m), (h, p\<lparr>frg_detect_mth := Some bg', motion_mask := Some m\<rparr>)))"
    if "denoise env h (blur p) X = Inr X1" "frg_detect_mth p = Some bg"
      "bs_apply env bg X1 = (Inr m0, bg')" "mat_morph p = Some ds" for ds
    using that 1 [of ds m0] by (simp add: predict_def Let_def)
  have 5: "predict env (h, p) X =
        (Inr (decide m2), (h, p\<lparr>frg_detect_mth := Some bg', motion_mask := Some m2\<rparr>))"
    if "denoise env h (blur p) X = Inr X1" "frg_detect_mth p = Some bg"
      "bs_apply env bg X1 = (Inr m0, bg')" "mat_morph p = Some [d1, d2]"
      "call env (dict_get (h d1) ''fun'') m0 [dict_get (h d1) ''kernel''] = Inr m1"
      "call env (dict_get (h d2) ''fun'') m1 [dict_get (h d2) ''kernel''] = Inr m2"
    using 4 [OF that(1-4)] that(5,6) by simp
  have 6: "blur p = None \<and> (mat_morph p = None \<or> mat_morph p = Some []) \<and>
      frg_detect_mth p = Some bg \<and> bs_apply env bg X = (Inr m0, bg') \<longrightarrow>
      predict env (h, p) X =
        (Inr (decide m0), (h, p\<lparr>frg_detect_mth := Some bg', motion_mask := Some m0\<rparr>))"
    by (auto simp: predict_def denoise_def refine_def)
  show ?thesis
    using 1 2 3 4 5 6 by blast
qed

theorem refine_in_order_witness:
  "predict toy_cv (default_heap, init_default\<lparr>frg_detect_mth := Some (Some frame_a)\<rparr>) frame_b =
     (Inr 0, (default_heap,
        init_default\<lparr>frg_detect_mth := Some (Some frame_b), motion_mask := Some zeros_2x2\<rparr>)) \<and>
   predict toy_cv
       (default_heap, init (Some 0) (VStr ''MOG2'') (Some [2, 1])\<lparr>frg_detect_mth := Some (Some frame_a)\<rparr>)
       frame_b =
     (Inr 1, (default_heap,
        init (Some 0) (VStr ''MOG2'') (Some [2, 1])
          \<lparr>frg_detect_mth := Some (Some frame_b), motion_mask := Some ones_2x2\<rparr>)) \<and>
   predict toy_cv
       (example_heap, init None (VStr ''MOG2'') (Some [2, 5])\<lparr>frg_detect_mth := Some (Some frame_a)\<rparr>)
       frame_b =
     (Inl TypeError, (example_heap,
        init None (VStr ''MOG2'') (Some [2, 5])\<lparr>frg_detect_mth := Some (Some frame_b)\<rparr>)) \<and>
   refine toy_cv example_heap (Some [2, 1]) \<lparr>shape = [2, 2], data = [0, 255, 0, 0]\<rparr> = Inr ones_2x2 \<and>
   refine toy_cv example_heap (Some [1, 2]) \<lparr>shape = [2, 2], data = [0, 255, 0, 0]\<rparr> = Inr zeros_2x2 \<and>
   predict toy_cv (example_heap, init None (VStr ''MOG2'') None\<lparr>frg_detect_mth := Some (Some frame_a)\<rparr>)
       frame_b
     = (Inr 1, (example_heap,
          init None (VStr ''MOG2'') None
            \<lparr>frg_detect_mth := Some (Some frame_b),
             motion_mask := Some \<lparr>shape = [2, 2], data = [0, 255, 0, 0]\<rparr>\<rparr>))"
proof -
  let ?m = "\<lparr>shape = [2, 2], data = [0, 255, 0, 0]\<rparr> :: ndarray"
  let ?d = "init_default\<lparr>frg_detect_mth := Some (Some frame_a)\<rparr> :: ndarray option gofpid"
  let ?r = "init (Some 0) (VStr ''MOG2'') (Some [2, 1])\<lparr>frg_detect_mth := Some (Some frame_a)\<rparr>
              :: ndarray option gofpid"
  let ?e = "init None (VStr ''MOG2'') (Some [2, 5])\<lparr>frg_detect_mth := Some (Some frame_a)\<rparr>
              :: ndarray option gofpid"
  let ?p = "init None (VStr ''MOG2'') None\<lparr>frg_detect_mth := Some (Some frame_a)\<rparr>
              :: ndarray option gofpid"
  note t = refine_in_order [where env = toy_cv and X = frame_b and ?X1.0 = frame_b
      and bg = "Some frame_a" and bg' = "Some frame_b" and ?m0.0 = ?m and msk = ?m]
  have b: "bs_apply toy_cv (Some frame_a) frame_b = (Inr ?m, Some frame_b)"
    by (simp add: model_defs)
  have z: "decide zeros_2x2 = 0" "decide ones_2x2 = 1" "decide ?m = 1"
    by (simp_all add: model_defs zeros_2x2_def ones_2x2_def)
  have ad: "denoise toy_cv default_heap (blur ?d) frame_b = Inr frame_b \<and>
      frg_detect_mth ?d = Some (Some frame_a) \<and> mat_morph ?d = Some [1, 2] \<and>
      call toy_cv (dict_get (default_heap 1) ''fun'') ?m [dict_get (default_heap 1) ''kernel'']
        = Inr zeros_2x2 \<and>
      call toy_cv (dict_get (default_heap 2) ''fun'') zeros_2x2 [dict_get (default_heap 2) ''kernel'']
        = Inr zeros_2x2"
    by (simp add: model_defs zeros_2x2_def)
  have 1: "predict toy_cv (default_heap, ?d) frame_b =
      (Inr 0, (default_heap, ?d\<lparr>frg_detect_mth := Some (Some frame_b), motion_mask := Some zeros_2x2\<rparr>))"
    using t [where h = default_heap and p = ?d and ?d1.0 = 1 and ?d2.0 = 2 and ?m1.0 = zeros_2x2
        and ?m2.0 = zeros_2x2 and ds = "[1, 2]" and d = 0] ad b z
    by simp
  have ar: "denoise toy_cv default_heap (blur ?r) frame_b = Inr frame_b \<and>
      frg_detect_mth ?r = Some (Some frame_a) \<and> mat_morph ?r = Some [2, 1] \<and>
      foldl (refine_step toy_cv default_heap) (Inr ?m) [2, 1] = Inr ones_2x2"
    by (simp add: model_defs ones_2x2_def)
  have 2: "predict toy_cv (default_heap, ?r) frame_b =
      (Inr 1, (default_heap, ?r\<lparr>frg_detect_mth := Some (Some frame_b), motion_mask := Some ones_2x2\<rparr>))"
    using t [where h = default_heap and p = ?r and ?d1.0 = 0 and ?d2.0 = 0 and ?m1.0 = zeros_2x2
        and ?m2.0 = zeros_2x2 and ds = "[2, 1]" and d = 0] ar b z
    by simp
  have ae: "denoise toy_cv example_heap (blur ?e) frame_b = Inr frame_b \<and>
      frg_detect_mth ?e = Some (Some frame_a) \<and> mat_morph ?e = Some [2, 5] \<and>
      foldl (refine_step toy_cv example_heap) (Inr ?m) [2, 5] = Inl TypeError"
    by (simp add: model_defs)
  have 3: "predict toy_cv (example_heap, ?e) frame_b =
      (Inl TypeError, (example_heap, ?e\<lparr>frg_detect_mth := Some (Some frame_b)\<rparr>))"
    using t [where h = example_heap and p = ?e and ?d1.0 = 0 and ?d2.0 = 0 and ?m1.0 = zeros_2x2
        and ?m2.0 = zeros_2x2 and ds = "[2, 5]" and d = 0] ae b
    by simp
  have f: "foldl (refine_step toy_cv example_heap) (Inr ?m) [2, 1] = Inr ones_2x2"
      "foldl (refine_step toy_cv example_heap) (Inr ?m) [1, 2] = Inr zeros_2x2"
    by (simp_all add: model_defs ones_2x2_def zeros_2x2_def)
  have 4: "refine toy_cv example_heap (Some [2, 1]) ?m = Inr ones_2x2"
    using t [where h = example_heap and p = ?p and ?d1.0 = 0 and ?d2.0 = 0 and ?m1.0 = zeros_2x2
        and ?m2.0 = zeros_2x2 and ds = "[2, 1]" and d = 0] f
    by simp
  have 5: "refine toy_cv example_heap (Some [1, 2]) ?m = Inr zeros_2x2"
    using t [where h = example_heap and p = ?p and ?d1.0 = 0 and ?d2.0 = 0 and ?m1.0 = zeros_2x2
        and ?m2.0 = zeros_2x2 and ds = "[1, 2]" and d = 0] f
    by simp
  have ap: "blur ?p = None \<and> mat_morph ?p = None \<and> frg_detect_mth ?p = Some (Some frame_a)"
    by (simp add: model_defs)
  have 6: "predict toy_cv (example_heap, ?p) frame_b =
      (Inr 1, (example_heap, ?p\<lparr>frg_detect_mth := Some (Some frame_b), motion_mask := Some ?m\<rparr>))"
    using t [where h = example_heap and p = ?p and ?d1.0 = 0 and ?d2.0 = 0 and ?m1.0 = zeros_2x2
        and ?m2.0 = zeros_2x2 and ds = "[]" and d = 0] ap b z
    by simp
  show ?thesis
    using 1 2 3 4 5 6 by (simp add: init_def init_default_def)
qed

section \<open>What predict leaves unchanged\<close>

lemma run_fields:
  "run env (h, p) Xs = (rs, (h', p')) \<Longrightarrow>
     h' = h \<and> blur p' = blur p \<and> frg_detect p' = frg_detect p \<and> mat_morph p' = mat_morph p"
proof (induction Xs arbitrary: p rs)
  case Nil
  then show ?case by simp
next
  case (Cons X Xs)
  obtain r h1 p1 where 1: "predict env (h, p) X = (r, (h1, p1))"
    by (metis prod.exhaust)
  obtain rs1 where 2: "run env (h1, p1) Xs = (rs1, (h', p'))"
    using Cons.prems 1 by (auto split: prod.splits)
  have "h1 = h"
    using predict_fields [OF 1] by simp
  then show ?case
    using predict_fields [OF 1] Cons.IH [of p1 rs1] 2 by simp
qed

text \<open>
  Claim C4, as stated: the denoiser never mutates the caller's input frame. The denoiser
  makes no copy: lines 132 to 136 hand the array the caller passed to the function
  stored under \<^verbatim>\<open>fun\<close>, and a function that writes into its source writes into the
  caller's frame. With the function that clears its argument in place (in the dictionary
  at address 9), the caller's frame is black after the call.
\<close>

theorem denoise_writes_frame:
  "blur (init (Some 9) (VStr ''MOG2'') None :: ndarray option gofpid) = Some 9 \<and>
   dict_get (example_heap 9) ''fun'' = VFun (Callable 0) \<and>
   denoise toy_cv example_heap (Some 9) frame_b = Inr zeros_2x2 \<and>
   denoise_leaves toy_cv example_heap (Some 9) frame_b = zeros_2x2 \<and>
   data frame_b = [7, 9, 7, 7] \<and> data zeros_2x2 = [0, 0, 0, 0] \<and>
   predict toy_cv (example_heap, init (Some 9) (VStr ''MOG2'') None\<lparr>frg_detect_mth := Some None\<rparr>)
       frame_b =
     (Inr 0, (example_heap,
        init (Some 9) (VStr ''MOG2'') None
          \<lparr>frg_detect_mth := Some (Some zeros_2x2), motion_mask := Some zeros_2x2\<rparr>))"
  by (simp add: model_defs zeros_2x2_def)

text \<open>
  Claim C4, amended. The denoiser itself writes nothing into the frame and makes no
  copy of it: after \<^verbatim>\<open>predict\<close>, the caller's frame holds what the call of the function
  under \<^verbatim>\<open>fun\<close> left in it, so it is unchanged for every function that does not write
  into its source, and unchanged when the denoiser is disabled (\<^verbatim>\<open>blur\<close> is \<^verbatim>\<open>None\<close> or
  empty) or \<^verbatim>\<open>fun\<close> is no function (the call raises). With \<^verbatim>\<open>blur\<close> \<^verbatim>\<open>None\<close>, the frame
  the background subtractor is applied to is the input frame. Whatever its outcome, a
  call of \<^verbatim>\<open>predict\<close>, and so any sequence of calls, leaves the store of dictionaries and
  the three references \<^verbatim>\<open>blur\<close>, \<^verbatim>\<open>frg_detect\<close> and \<^verbatim>\<open>mat_morph\<close> as they were.
\<close>

theorem predict_no_mutation:
  "(blur p = None \<or> blur p = Some a \<and> h a = [] \<longrightarrow>
      denoise env h (blur p) X = Inr X \<and> denoise_leaves env h (blur p) X = X) \<and>
   (blur p = Some a \<and> h a \<noteq> [] \<and> dict_get (h a) ''fun'' = VFun c \<longrightarrow>
      denoise env h (blur p) X =
        cv_call env c X [dict_get (h a) ''ksize'', dict_get (h a) ''borderType''] \<and>
      denoise_leaves env h (blur p) X =
        cv_writes env c X [dict_get (h a) ''ksize'', dict_get (h a) ''borderType'']) \<and>
   (blur p = Some a \<and> h a \<noteq> [] \<and> (\<forall>c. dict_get (h a) ''fun'' \<noteq> VFun c) \<longrightarrow>
      predict env (h, p) X = (Inl TypeError, (h, p)) \<and> denoise_leaves env h (blur p) X = X) \<and>
   (blur p = None \<and> frg_detect_mth p = Some bg \<longrightarrow>
      predict env (h, p) X =
        (case bs_apply env bg X of
           (Inl e, bg') \<Rightarrow> (Inl e, (h, p\<lparr>frg_detect_mth := Some bg'\<rparr>))
         | (Inr m0, bg') \<Rightarrow>
             (case refine env h (mat_morph p) m0 of
                Inl e \<Rightarrow> (Inl e, (h, p\<lparr>frg_detect_mth := Some bg'\<rparr>))
              | Inr m \<Rightarrow>
                  (Inr (decide m),
                   (h, p\<lparr>frg_detect_mth := Some bg', motion_mask := Some m\<rparr>))))) \<and>
   (predict env (h, p) X = (r, (h', p')) \<longrightarrow>
      h' = h \<and> blur p' = blur p \<and> frg_detect p' = frg_detect p \<and> mat_morph p' = mat_morph p) \<and>
   (run env (h, p) Xs = (rs, (h'', p'')) \<longrightarrow>
      h'' = h \<and> blur p'' = blur p \<and> frg_detect p'' = frg_detect p \<and> mat_morph p'' = mat_morph p)"
proof -
  have 1: "blur p = None \<or> blur p = Some a \<and> h a = [] \<longrightarrow>
      denoise env h (blur p) X = Inr X \<and> denoise_leaves env h (blur p) X = X"
    by (auto simp: denoise_def denoise_leaves_def)
  have 2: "blur p = Some a \<and> h a \<noteq> [] \<and> dict_get (h a) ''fun'' = VFun c \<longrightarrow>
      denoise env h (blur p) X =
        cv_call env c X [dict_get (h a) ''ksize'', dict_get (h a) ''borderType''] \<and>
      denoise_leaves env h (blur p) X =
        cv_writes env c X [dict_get (h a) ''ksize'', dict_get (h a) ''borderType'']"
    by (simp add: denoise_def denoise_leaves_def call_def)
  have 3: "blur p = Some a \<and> h a \<noteq> [] \<and> (\<forall>c. dict_get (h a) ''fun'' \<noteq> VFun c) \<longrightarrow>
      predict env (h, p) X = (Inl TypeError, (h, p)) \<and> denoise_leaves env h (blur p) X = X"
    by (cases "dict_get (h a) ''fun''")
      (simp_all add: predict_def denoise_def denoise_leaves_def call_def)
  have 4: "blur p = None \<and> frg_detect_mth p = Some bg \<longrightarrow>
      predict env (h, p) X =
        (case bs_apply env bg X of
           (Inl e, bg') \<Rightarrow> (Inl e, (h, p\<lparr>frg_detect_mth := Some bg'\<rparr>))
         | (Inr m0, bg') \<Rightarrow>
             (case refine env h (mat_morph p) m0 of
                Inl e \<Rightarrow> (Inl e, (h, p\<lparr>frg_detect_mth := Some bg'\<rparr>))
              | Inr m \<Rightarrow>
                  (Inr (decide m),
                   (h, p\<lparr>frg_detect_mth := Some bg', motion_mask := Some m\<rparr>))))"
    by (auto simp: predict_def denoise_def Let_def split: sum.splits prod.splits)
  have 5: "predict env (h, p) X = (r, (h', p')) \<longrightarrow>
      h' = h \<and> blur p' = blur p \<and> frg_detect p' = frg_detect p \<and> mat_morph p' = mat_morph p"
    using predict_fields by blast
  have 6: "run env (h, p) Xs = (rs, (h'', p'')) \<longrightarrow>
      h'' = h \<and> blur p'' = blur p \<and> frg_detect p'' = frg_detect p \<and> mat_morph p'' = mat_morph p"
    using run_fields by blast
  show ?thesis
    using 1 2 3 4 5 6 by blast
qed

theorem predict_no_mutation_witness:
  "denoise_leaves toy_cv example_heap (blur broken_gofpid) frame_b = frame_b \<and>
   blur empty_blur_gofpid = Some 3 \<and>
   denoise_leaves toy_cv example_heap (blur empty_blur_gofpid) frame_b = frame_b \<and>
   blur (snd example_fitted) = Some 0 \<and>
   dict_get (fst example_fitted 0) ''fun'' = VFun GaussianBlur \<and>
   denoise toy_cv (fst example_fitted) (blur (snd example_fitted)) frame_b = Inr frame_b \<and>
   denoise_leaves toy_cv (fst example_fitted) (blur (snd example_fitted)) frame_b = frame_b \<and>
   blur no_fun_blur_gofpid = Some 4 \<and>
   predict toy_cv (example_heap, no_fun_blur_gofpid) frame_b =
     (Inl TypeError, (example_heap, no_fun_blur_gofpid)) \<and>
   denoise_leaves toy_cv example_heap (blur no_fun_blur_gofpid) frame_b = frame_b \<and>
   predict toy_cv (example_heap, broken_gofpid\<lparr>frg_detect_mth := Some (Some frame_a), mat_morph := None\<rparr>)
       frame_b =
     (Inr 1, (example_heap,
        broken_gofpid
          \<lparr>frg_detect_mth := Some (Some frame_b), mat_morph := None,
           motion_mask := Some \<lparr>shape = [2, 2], data = [0, 255, 0, 0]\<rparr>\<rparr>)) \<and>
   predict toy_cv example_fitted frame_a =
     (Inr 0, (fst example_fitted,
        (snd example_fitted)
          \<lparr>frg_detect_mth := Some (Some frame_a),
           motion_mask := Some \<lparr>shape = [2, 2], data = [0, 0, 0, 0]\<rparr>\<rparr>)) \<and>
   run toy_cv example_fitted [frame_a, frame_b] =
     ([Inr 0, Inr 1], (fst example_fitted,
        (snd example_fitted)
          \<lparr>frg_detect_mth := Some (Some frame_b),
           motion_mask := Some \<lparr>shape = [2, 2], data = [255, 255, 255, 255]\<rparr>\<rparr>))"
proof -
  let ?h = "fst example_fitted" and ?p = "snd example_fitted"
  let ?p1 = "?p\<lparr>frg_detect_mth := Some (Some frame_a),
                motion_mask := Some \<lparr>shape = [2, 2], data = [0, 0, 0, 0]\<rparr>\<rparr>"
  let ?p2 = "?p\<lparr>frg_detect_mth := Some (Some frame_b),
                motion_mask := Some \<lparr>shape = [2, 2], data = [255, 255, 255, 255]\<rparr>\<rparr>"
  let ?q = "broken_gofpid\<lparr>frg_detect_mth := Some (Some frame_a), mat_morph := None\<rparr>"
  let ?m = "\<lparr>shape = [2, 2], data = [0, 255, 0, 0]\<rparr> :: ndarray"
  have n: "blur broken_gofpid = None"
    by (simp add: model_defs example_defs)
  have 1: "denoise_leaves toy_cv example_heap (blur broken_gofpid) frame_b = frame_b"
    using predict_no_mutation [where p = broken_gofpid and env = toy_cv and h = example_heap
        and X = frame_b] n
    by simp
  have e: "blur empty_blur_gofpid = Some 3 \<and> example_heap 3 = []"
    by (simp add: model_defs empty_blur_gofpid_def)
  have 2: "denoise_leaves toy_cv example_heap (blur empty_blur_gofpid) frame_b = frame_b"
    using predict_no_mutation [where p = empty_blur_gofpid and env = toy_cv and h = example_heap
        and X = frame_b and a = 3] e
    by simp
  have b: "blur ?p = Some 0 \<and> ?h 0 \<noteq> [] \<and> dict_get (?h 0) ''fun'' = VFun GaussianBlur \<and>
      cv_call toy_cv GaussianBlur frame_b [dict_get (?h 0) ''ksize'', dict_get (?h 0) ''borderType'']
        = Inr frame_b \<and>
      cv_writes toy_cv GaussianBlur frame_b [dict_get (?h 0) ''ksize'', dict_get (?h 0) ''borderType'']
        = frame_b"
    by (simp add: model_defs example_defs)
  have 3: "denoise toy_cv ?h (blur ?p) frame_b = Inr frame_b \<and>
           denoise_leaves toy_cv ?h (blur ?p) frame_b = frame_b"
    using predict_no_mutation [where p = ?p and env = toy_cv and h = ?h and X = frame_b and a = 0
        and c = GaussianBlur] b
    by simp
  have f: "blur no_fun_blur_gofpid = Some 4 \<and> example_heap 4 \<noteq> [] \<and>
      (\<forall>c. dict_get (example_heap 4) ''fun'' \<noteq> VFun c)"
    by (simp add: model_defs no_fun_blur_gofpid_def)
  have 4: "predict toy_cv (example_heap, no_fun_blur_gofpid) frame_b =
             (Inl TypeError, (example_heap, no_fun_blur_gofpid)) \<and>
           denoise_leaves toy_cv example_heap (blur no_fun_blur_gofpid) frame_b = frame_b"
    using predict_no_mutation [where p = no_fun_blur_gofpid and env = toy_cv and h = example_heap
        and X = frame_b and a = 4] f
    by simp
  have q: "blur ?q = None \<and> frg_detect_mth ?q = Some (Some frame_a) \<and> mat_morph ?q = None \<and>
      bs_apply toy_cv (Some frame_a) frame_b = (Inr ?m, Some frame_b) \<and>
      refine toy_cv example_heap None ?m = Inr ?m \<and> decide ?m = 1"
    by (simp add: model_defs example_defs)
  have 5: "predict toy_cv (example_heap, ?q) frame_b =
     (Inr 1, (example_heap, ?q\<lparr>frg_detect_mth := Some (Some frame_b), motion_mask := Some ?m\<rparr>))"
    using predict_no_mutation [where p = ?q and env = toy_cv and h = example_heap
        and X = frame_b and bg = "Some frame_a"] q
    by simp
  have p: "predict toy_cv (?h, ?p) frame_a = (Inr 0, (?h, ?p1))"
    by (simp add: model_defs example_defs)
  have r: "run toy_cv (?h, ?p) [frame_a, frame_b] = ([Inr 0, Inr 1], (?h, ?p2))"
    by (simp add: model_defs example_defs)
  have 6: "?h = ?h \<and> blur ?p1 = blur ?p \<and> frg_detect ?p1 = frg_detect ?p \<and>
           mat_morph ?p1 = mat_morph ?p \<and> blur ?p2 = blur ?p \<and> frg_detect ?p2 = frg_detect ?p \<and>
           mat_morph ?p2 = mat_morph ?p"
    using predict_no_mutation [where p = ?p and h = ?h and env = toy_cv and X = frame_a
        and r = "Inr 0" and h' = ?h and p' = ?p1
        and Xs = "[frame_a, frame_b]" and rs = "[Inr 0, Inr 1]" and h'' = ?h and p'' = ?p2] p r
    by simp
  show ?thesis
    using 1 2 3 4 5 6 e b f p r by simp
qed

section \<open>The background subtractor variants\<close>

lemma fit_bound_ok:
  assumes "bound_ok p" and "fit env (h, p) = (r, (h', p'))"
  shows "bound_ok p'"
proof (cases "fit_frg_detect env (frg_detect p)")
  case (Inl e)
  then have "p' = p"
    using assms(2) by (auto simp: fit_def split: sum.splits)
  then show ?thesis
    using assms(1) by simp
next
  case (Inr bg)
  then have f: "frg_detect p = VStr ''MOG2'' \<or> frg_detect p = VStr ''KNN''"
    by (auto simp: fit_frg_detect_def split: if_splits)
  have "frg_detect p' = frg_detect p"
    using fit_fields [OF assms(2)] by simp
  moreover have "p' = p \<or> frg_detect_mth p' \<noteq> None"
    using assms(2)
    by (auto simp: fit_def Let_def split: sum.splits option.splits if_splits prod.splits)
  ultimately show ?thesis
    using assms(1) f by (auto simp: bound_ok_def)
qed

lemma predict_bound_ok:
  assumes "bound_ok p" and "predict env (h, p) X = (r, (h', p'))"
  shows "bound_ok p'"
  using assms
  by (auto simp: bound_ok_def predict_def Let_def split: sum.splits option.splits prod.splits)

lemma reachable_bound_ok: "reachable env s \<Longrightarrow> bound_ok (snd s)"
proof (induction rule: reachable.induct)
  case (r_init h b f m)
  show ?case by (simp add: bound_ok_def init_def)
next
  case (r_fit s r s')
  then show ?case
    by (cases s; cases s') (auto dest: fit_bound_ok)
next
  case (r_predict s X r s')
  then show ?case
    by (cases s; cases s') (auto dest: predict_bound_ok)
next
  case (r_caller h p h')
  then show ?case by simp
qed

lemma predict_unbound:
  "frg_detect_mth p = None \<Longrightarrow> \<exists>e. predict env (h, p) X = (Inl e, (h, p))"
  by (auto simp: predict_def split: sum.splits)

lemma fit_binds:
  assumes "fit_blur h (blur p) = Inr h1" and "fit_frg_detect env (frg_detect p) = Inr bg"
  shows "frg_detect_mth (snd (snd (fit env (h, p)))) = Some bg"
  using assms by (simp add: fit_def Let_def split: option.splits prod.splits)

lemma fit_binds_nothing:
  assumes "fit_frg_detect env (frg_detect p) = Inl e"
  shows "\<exists>m h1. fit env (h, p) = (Inl (ValueError m), (h1, p))"
proof -
  obtain m where "e = ValueError m"
    using assms by (auto simp: fit_frg_detect_def split: if_splits)
  then show ?thesis
    using assms by (auto simp: fit_def fit_blur_def Let_def split: sum.splits option.splits)
qed

lemma fit_blur_passes:
  "fit_blur h b \<noteq> Inl (ValueError BlurNoFun) \<longleftrightarrow>
     \<not> (case map_option h b of None \<Rightarrow> False | Some d \<Rightarrow> d \<noteq> [] \<and> \<not> dict_has d ''fun'')"
  using fit_blur_outcome [of h b] by (auto split: sum.splits if_splits)


text \<open>
  Claim C5, as stated: \<^verbatim>\<open>fit\<close> raises for every value of \<^verbatim>\<open>frg_detect\<close> other than
  \<^verbatim>\<open>'MOG2'\<close> and \<^verbatim>\<open>'KNN'\<close>, and this prevents the pipeline from being used. \<^verbatim>\<open>fit\<close>
  raises, but it removes nothing: on an object that was fitted with \<^verbatim>\<open>'KNN'\<close> and whose
  \<^verbatim>\<open>frg_detect\<close> was then set to \<^verbatim>\<open>'GMG'\<close>, \<^verbatim>\<open>fit\<close> raises the error for the unknown
  method and leaves the state as it is, and \<^verbatim>\<open>predict\<close> goes on returning verdicts with
  the subtractor bound before.
\<close>

theorem fit_unknown_keeps_subtractor:
  "frg_detect ((snd example_fitted)\<lparr>frg_detect := VStr ''GMG''\<rparr>) = VStr ''GMG'' \<and>
   fit toy_cv (fst example_fitted, (snd example_fitted)\<lparr>frg_detect := VStr ''GMG''\<rparr>) =
     (Inl (ValueError UnknownBackgroundSubtraction),
      (fst example_fitted, (snd example_fitted)\<lparr>frg_detect := VStr ''GMG''\<rparr>)) \<and>
   run toy_cv (fst example_fitted, (snd example_fitted)\<lparr>frg_detect := VStr ''GMG''\<rparr>)
       [frame_a, frame_b] =
     ([Inr 0, Inr 1],
      (fst example_fitted,
       (snd example_fitted)
         \<lparr>frg_detect := VStr ''GMG'', frg_detect_mth := Some (Some frame_b),
          motion_mask := Some ones_2x2\<rparr>))"
  by (simp add: model_defs example_defs ones_2x2_def)

text \<open>
  Claim C5, amended. With \<^verbatim>\<open>frg_detect\<close> \<^verbatim>\<open>'MOG2'\<close>, and the check of \<^verbatim>\<open>blur\<close> passed,
  \<^verbatim>\<open>fit\<close> binds the subtractor that \<^verbatim>\<open>cv.createBackgroundSubtractorMOG2()\<close> returns, and
  with \<^verbatim>\<open>'KNN'\<close> the one that \<^verbatim>\<open>cv.createBackgroundSubtractorKNN()\<close> returns. With one
  of the two, \<^verbatim>\<open>fit\<close> returns exactly when the check of \<^verbatim>\<open>blur\<close> passes and every entry
  of \<^verbatim>\<open>mat_morph\<close> has a \<^verbatim>\<open>fun\<close>; and \<^verbatim>\<open>fit\<close> returns with no other value. It raises the
  error for an unknown method exactly when \<^verbatim>\<open>frg_detect\<close> is neither, is no array of
  several elements, and the check of \<^verbatim>\<open>blur\<close> has passed; for an array of several
  elements the comparison itself raises numpy's \<^verbatim>\<open>ValueError\<close>. With every other value,
  in every state, \<^verbatim>\<open>fit\<close> raises a \<^verbatim>\<open>ValueError\<close> and leaves the object as it is: it
  binds no subtractor, and removes none. So \<^verbatim>\<open>predict\<close> raises, and changes nothing,
  as long as no subtractor was bound before; this is the case in every state of an
  object whose attributes are assigned by \<^verbatim>\<open>__init__\<close>, \<^verbatim>\<open>fit\<close> and \<^verbatim>\<open>predict\<close> only,
  where no mask is exposed either.
\<close>

theorem fit_frg_detect_variants:
  "(frg_detect p = VStr ''MOG2'' \<and> fit_blur h (blur p) = Inr h1 \<longrightarrow>
      frg_detect_mth (snd (snd (fit env (h, p)))) = Some (createBackgroundSubtractorMOG2 env)) \<and>
   (frg_detect p = VStr ''KNN'' \<and> fit_blur h (blur p) = Inr h1 \<longrightarrow>
      frg_detect_mth (snd (snd (fit env (h, p)))) = Some (createBackgroundSubtractorKNN env)) \<and>
   (frg_detect p = VStr ''MOG2'' \<or> frg_detect p = VStr ''KNN'' \<longrightarrow>
      (fst (fit env (h, p)) = Inr () \<longleftrightarrow>
         fit_blur h (blur p) \<noteq> Inl (ValueError BlurNoFun) \<and>
         (\<forall>ds. mat_morph p = Some ds \<longrightarrow> list_all (\<lambda>d. dict_has (h d) ''fun'') ds))) \<and>
   (fit env (h, p) = (Inr (), (h', p')) \<longrightarrow>
      frg_detect p = VStr ''MOG2'' \<and>
        frg_detect_mth p' = Some (createBackgroundSubtractorMOG2 env) \<or>
      frg_detect p = VStr ''KNN'' \<and>
        frg_detect_mth p' = Some (createBackgroundSubtractorKNN env)) \<and>
   (fst (fit env (h, p)) = Inl (ValueError UnknownBackgroundSubtraction) \<longleftrightarrow>
      frg_detect p \<noteq> VStr ''MOG2'' \<and> frg_detect p \<noteq> VStr ''KNN'' \<and>
      \<not> ambiguous (frg_detect p) \<and> fit_blur h (blur p) \<noteq> Inl (ValueError BlurNoFun)) \<and>
   (fst (fit env (h, p)) = Inl (ValueError AmbiguousTruthValue) \<longleftrightarrow>
      ambiguous (frg_detect p) \<and> fit_blur h (blur p) \<noteq> Inl (ValueError BlurNoFun)) \<and>
   (frg_detect p \<noteq> VStr ''MOG2'' \<and> frg_detect p \<noteq> VStr ''KNN'' \<longrightarrow>
      (\<exists>m h2. fit env (h, p) = (Inl (ValueError m), (h2, p))) \<and>
      (frg_detect_mth p = None \<longrightarrow> (\<exists>e. predict env (h, p) X = (Inl e, (h, p))))) \<and>
   (reachable env (h, p) \<and> frg_detect p \<noteq> VStr ''MOG2'' \<and> frg_detect p \<noteq> VStr ''KNN'' \<longrightarrow>
      frg_detect_mth p = None \<and> motion_mask p = None)"
proof -
  have a: "frg_detect p = VStr ''MOG2'' \<and> fit_blur h (blur p) = Inr h1 \<longrightarrow>
      frg_detect_mth (snd (snd (fit env (h, p)))) = Some (createBackgroundSubtractorMOG2 env)"
    using fit_binds [of h p h1 env "createBackgroundSubtractorMOG2 env"]
    by (simp add: fit_frg_detect_def)
  have b: "frg_detect p = VStr ''KNN'' \<and> fit_blur h (blur p) = Inr h1 \<longrightarrow>
      frg_detect_mth (snd (snd (fit env (h, p)))) = Some (createBackgroundSubtractorKNN env)"
    using fit_binds [of h p h1 env "createBackgroundSubtractorKNN env"]
    by (simp add: fit_frg_detect_def)
  have m: "(\<forall>ds. mat_morph p = Some ds \<longrightarrow> list_all (\<lambda>d. dict_has (h d) ''fun'') ds) \<longleftrightarrow>
      \<not> (case map_option (map h) (mat_morph p) of None \<Rightarrow> False
         | Some ds \<Rightarrow> \<not> list_all (\<lambda>d. dict_has d ''fun'') ds)"
    by (cases "mat_morph p") (simp_all add: list_all_iff)
  have c: "frg_detect p = VStr ''MOG2'' \<or> frg_detect p = VStr ''KNN'' \<longrightarrow>
      (fst (fit env (h, p)) = Inr () \<longleftrightarrow>
         fit_blur h (blur p) \<noteq> Inl (ValueError BlurNoFun) \<and>
         (\<forall>ds. mat_morph p = Some ds \<longrightarrow> list_all (\<lambda>d. dict_has (h d) ''fun'') ds))"
    unfolding m fit_blur_passes by (auto simp: fit_outcome validate_def config_def)
  have d: "fit env (h, p) = (Inr (), (h', p')) \<longrightarrow>
      frg_detect p = VStr ''MOG2'' \<and>
        frg_detect_mth p' = Some (createBackgroundSubtractorMOG2 env) \<or>
      frg_detect p = VStr ''KNN'' \<and>
        frg_detect_mth p' = Some (createBackgroundSubtractorKNN env)"
    by (auto simp: fit_def fit_frg_detect_def Let_def
        split: sum.splits option.splits if_splits prod.splits)
  have e: "fst (fit env (h, p)) = Inl (ValueError UnknownBackgroundSubtraction) \<longleftrightarrow>
      frg_detect p \<noteq> VStr ''MOG2'' \<and> frg_detect p \<noteq> VStr ''KNN'' \<and>
      \<not> ambiguous (frg_detect p) \<and> fit_blur h (blur p) \<noteq> Inl (ValueError BlurNoFun)"
    unfolding fit_blur_passes by (auto simp: fit_outcome validate_def config_def)
  have f: "fst (fit env (h, p)) = Inl (ValueError AmbiguousTruthValue) \<longleftrightarrow>
      ambiguous (frg_detect p) \<and> fit_blur h (blur p) \<noteq> Inl (ValueError BlurNoFun)"
    unfolding fit_blur_passes by (auto simp: fit_outcome validate_def config_def)
  have g: "(\<exists>m h2. fit env (h, p) = (Inl (ValueError m), (h2, p))) \<and>
      (frg_detect_mth p = None \<longrightarrow> (\<exists>e. predict env (h, p) X = (Inl e, (h, p))))"
    if "frg_detect p \<noteq> VStr ''MOG2''" "frg_detect p \<noteq> VStr ''KNN''"
  proof -
    have "\<exists>e. fit_frg_detect env (frg_detect p) = Inl e"
      using that by (simp add: fit_frg_detect_def)
    then show ?thesis
      using fit_binds_nothing predict_unbound by blast
  qed
  have r: "frg_detect_mth p = None \<and> motion_mask p = None"
    if "reachable env (h, p)" "frg_detect p \<noteq> VStr ''MOG2''" "frg_detect p \<noteq> VStr ''KNN''"
    using reachable_bound_ok [OF that(1)] that(2,3) by (simp add: bound_ok_def)
  show ?thesis
    using a b c d e f g r by blast
qed

theorem fit_frg_detect_variants_witness:
  "fit toy_cv_knn (default_heap, init_default) =
     (Inr (), (default_heap, init_default\<lparr>frg_detect_mth := Some None\<rparr>)) \<and>
   frg_detect (init_default :: ndarray option gofpid) = VStr ''MOG2'' \<and>
   createBackgroundSubtractorMOG2 toy_cv_knn = None \<and>
   fit toy_cv_knn (example_heap, example_gofpid) =
     (Inr (), (fst example_fitted, example_gofpid\<lparr>frg_detect_mth := Some (Some zeros_2x2)\<rparr>)) \<and>
   frg_detect example_gofpid = VStr ''KNN'' \<and>
   createBackgroundSubtractorKNN toy_cv_knn = Some zeros_2x2 \<and>
   fst (fit toy_cv_knn (example_heap, broken_gofpid)) = Inl (ValueError MatMorphNoFun) \<and>
   frg_detect broken_gofpid = VStr ''MOG2'' \<and>
   frg_detect_mth (snd (snd (fit toy_cv_knn (example_heap, broken_gofpid)))) = Some None \<and>
   reachable toy_cv_knn (example_heap, unknown_gofpid) \<and>
   frg_detect unknown_gofpid = VStr ''GMG'' \<and>
   fst (fit toy_cv_knn (example_heap, unknown_gofpid)) =
     Inl (ValueError UnknownBackgroundSubtraction) \<and>
   snd (snd (fit toy_cv_knn (example_heap, unknown_gofpid))) = unknown_gofpid \<and>
   predict toy_cv_knn (example_heap, unknown_gofpid) frame_a =
     (Inl AttributeError, (example_heap, unknown_gofpid)) \<and>
   fit toy_cv_knn (example_heap, init None (VArray frame_a) None) =
     (Inl (ValueError AmbiguousTruthValue), (example_heap, init None (VArray frame_a) None))"
proof -
  let ?d = "init_default :: ndarray option gofpid"
  let ?u = "unknown_gofpid"
  let ?v = "init None (VArray frame_a) None :: ndarray option gofpid"
  note v = fit_frg_detect_variants [where env = toy_cv_knn]
  have c: "createBackgroundSubtractorMOG2 toy_cv_knn = None \<and>
           createBackgroundSubtractorKNN toy_cv_knn = Some zeros_2x2"
    by (simp add: toy_cv_knn_def toy_cv_def zeros_2x2_def)
  have bd: "fit_blur default_heap (blur ?d) = Inr default_heap \<and> frg_detect ?d = VStr ''MOG2'' \<and>
            mat_morph ?d = Some [1, 2] \<and> blur ?d = Some 0"
    by (simp add: model_defs)
  have fd: "fit toy_cv_knn (default_heap, ?d) = (Inr (), (default_heap, ?d\<lparr>frg_detect_mth := Some None\<rparr>))"
    by (simp add: model_defs toy_cv_knn_def)
  have 1: "frg_detect_mth (snd (snd (fit toy_cv_knn (default_heap, ?d)))) = Some None \<and>
           fst (fit toy_cv_knn (default_heap, ?d)) = Inr ()"
    using v [where h = default_heap and p = ?d and ?h1.0 = default_heap and h' = default_heap
        and p' = "?d\<lparr>frg_detect_mth := Some None\<rparr>"] bd c fd
    by simp
  have be: "fit_blur example_heap (blur example_gofpid) = Inr (example_heap(0 := [(''fun'', VFun GaussianBlur), (''ksize'', VTuple [3, 3]), (''borderType'', BORDER_DEFAULT)])) \<and>
            frg_detect example_gofpid = VStr ''KNN''"
    by (simp add: model_defs example_defs)
  have fe: "fit toy_cv_knn (example_heap, example_gofpid) =
     (Inr (), (fst example_fitted, example_gofpid\<lparr>frg_detect_mth := Some (Some zeros_2x2)\<rparr>))"
    by (simp add: model_defs example_defs toy_cv_knn_def zeros_2x2_def)
  have 2: "frg_detect_mth (snd (snd (fit toy_cv_knn (example_heap, example_gofpid)))) =
             Some (Some zeros_2x2)"
    using v [where h = example_heap and p = example_gofpid
        and ?h1.0 = "example_heap(0 := [(''fun'', VFun GaussianBlur), (''ksize'', VTuple [3, 3]), (''borderType'', BORDER_DEFAULT)])"] be c
    by simp
  have bb: "fit_blur example_heap (blur broken_gofpid) = Inr example_heap \<and>
            frg_detect broken_gofpid = VStr ''MOG2'' \<and> mat_morph broken_gofpid = Some [1, 5] \<and>
            \<not> list_all (\<lambda>d. dict_has (example_heap d) ''fun'') [1, 5]"
    by (simp add: model_defs example_defs)
  have fb: "fst (fit toy_cv_knn (example_heap, broken_gofpid)) = Inl (ValueError MatMorphNoFun)"
    by (simp add: model_defs example_defs toy_cv_knn_def)
  have 3: "frg_detect_mth (snd (snd (fit toy_cv_knn (example_heap, broken_gofpid)))) = Some None \<and>
           fst (fit toy_cv_knn (example_heap, broken_gofpid)) \<noteq> Inr ()"
    using v [where h = example_heap and p = broken_gofpid and ?h1.0 = example_heap] bb c
    by auto
  have ru: "reachable toy_cv_knn (example_heap, ?u)"
    unfolding unknown_gofpid_def by (rule reachable.r_init)
  have bu: "frg_detect ?u \<noteq> VStr ''MOG2'' \<and> frg_detect ?u \<noteq> VStr ''KNN'' \<and>
            frg_detect ?u = VStr ''GMG'' \<and> \<not> ambiguous (frg_detect ?u) \<and>
            fit_blur example_heap (blur ?u) \<noteq> Inl (ValueError BlurNoFun)"
    by (simp add: model_defs example_defs)
  have 4: "fst (fit toy_cv_knn (example_heap, ?u)) = Inl (ValueError UnknownBackgroundSubtraction) \<and>
           (\<exists>m h2. fit toy_cv_knn (example_heap, ?u) = (Inl (ValueError m), (h2, ?u))) \<and>
           (\<exists>e. predict toy_cv_knn (example_heap, ?u) frame_a = (Inl e, (example_heap, ?u)))"
    using v [where h = example_heap and p = ?u and X = frame_a and ?h1.0 = example_heap
        and h' = example_heap and p' = ?u] ru bu
    by simp
  then have 6: "snd (snd (fit toy_cv_knn (example_heap, ?u))) = ?u"
    by auto
  have pu: "predict toy_cv_knn (example_heap, ?u) frame_a = (Inl AttributeError, (example_heap, ?u))"
    by (simp add: model_defs example_defs toy_cv_knn_def)
  have bv: "ambiguous (frg_detect ?v) \<and> fit_blur example_heap (blur ?v) \<noteq> Inl (ValueError BlurNoFun) \<and>
            frg_detect ?v \<noteq> VStr ''MOG2'' \<and> frg_detect ?v \<noteq> VStr ''KNN''"
    by (simp add: model_defs)
  have 5: "fst (fit toy_cv_knn (example_heap, ?v)) = Inl (ValueError AmbiguousTruthValue)"
    using v [where h = example_heap and p = ?v] bv by blast
  have fv: "fit toy_cv_knn (example_heap, ?v) = (Inl (ValueError AmbiguousTruthValue), (example_heap, ?v))"
    by (simp add: model_defs toy_cv_knn_def)
  show ?thesis
    using 1 2 3 4 5 6 c fd fe fb bd be bb ru bu pu fv by simp
qed

section \<open>predict on an object on which fit has not returned\<close>

lemma refine_loop_no_fun:
  "\<not> list_all (\<lambda>d. dict_has (h d) ''fun'') ds \<Longrightarrow> \<exists>e. refine_loop env h ds msk = Inl e"
proof (induction ds arbitrary: msk)
  case Nil
  then show ?case by simp
next
  case (Cons d ds)
  show ?case
  proof (cases "dict_has (h d) ''fun''")
    case False
    then show ?thesis
      by (simp add: dict_get_missing call_def)
  next
    case True
    then have "\<not> list_all (\<lambda>d. dict_has (h d) ''fun'') ds"
      using Cons.prems by simp
    then show ?thesis
      using Cons.IH by (cases "call env (dict_get (h d) ''fun'') msk [dict_get (h d) ''kernel'']") auto
  qed
qed

lemma unusable_predict:
  assumes "unusable (h, p)" and "predict env (h, p) X = (r, s')"
  shows "\<exists>e. r = Inl e"
proof (cases "frg_detect_mth p")
  case None
  then show ?thesis
    using assms(2) by (auto simp: predict_def split: sum.splits)
next
  case (Some bg)
  then obtain ds where ds: "mat_morph p = Some ds" "\<not> list_all (\<lambda>d. dict_has (h d) ''fun'') ds"
    using assms(1) by (auto simp: unusable_def split: option.splits)
  then have "ds \<noteq> []"
    by auto
  then have m: "\<And>msk. \<exists>e. refine env h (mat_morph p) msk = Inl e"
    using ds refine_loop_no_fun [of h ds env] by (simp add: refine_def)
  show ?thesis
  proof (cases "denoise env h (blur p) X")
    case (Inl e)
    then show ?thesis
      using assms(2) by (auto simp: predict_def)
  next
    case (Inr X1)
    obtain a bg' where b: "bs_apply env bg X1 = (a, bg')"
      by (metis prod.exhaust)
    show ?thesis
    proof (cases a)
      case (Inl e)
      then show ?thesis
        using assms(2) Some Inr b by (auto simp: predict_def)
    next
      case (Inr msk)
      obtain e where "refine env h (mat_morph p) msk = Inl e"
        using m by blast
      then show ?thesis
        using assms(2) Some \<open>denoise env h (blur p) X = Inr X1\<close> b Inr
        by (auto simp: predict_def)
    qed
  qed
qed

lemma unusable_defaulted:
  assumes "unusable (h, p)" and "defaulted h h'"
  shows "unusable (h', p)"
  using assms by (auto simp: unusable_def list_all_iff defaulted_fun split: option.splits)

lemma unusable_after_predict:
  assumes "unusable (h, p)" and "predict env (h, p) X = (r, (h', p'))"
  shows "unusable (h', p')"
proof -
  obtain e where "r = Inl e"
    using unusable_predict [OF assms] by blast
  then have "motion_mask p' = motion_mask p"
    using assms(2) predict_raised by blast
  moreover have "frg_detect_mth p = None \<longrightarrow> frg_detect_mth p' = None"
    using assms(2) by (auto simp: predict_def Let_def split: sum.splits prod.splits)
  ultimately show ?thesis
    using assms(1) predict_fields [OF assms(2)] by (auto simp: unusable_def)
qed

lemma fit_raised_mth:
  assumes "fit env (h, p) = (Inl e, (h', p'))"
  shows "frg_detect_mth p' = frg_detect_mth p \<or>
         (\<exists>ds. mat_morph p = Some ds \<and> \<not> list_all (\<lambda>d. dict_has (h' d) ''fun'') ds)"
proof (cases "frg_detect_mth p' = frg_detect_mth p")
  case True
  then show ?thesis by simp
next
  case False
  then obtain h1 ds where ds: "mat_morph p = Some ds" and m: "fit_mat_morph h1 ds = (Inl e, h')"
    using assms
    by (auto simp: fit_def Let_def split: sum.splits option.splits if_splits prod.splits)
  have "\<not> list_all (\<lambda>d. dict_has (h1 d) ''fun'') ds"
    using fit_mat_morph_outcome [of h1 ds] m by (auto split: if_splits)
  moreover have "defaulted h1 h'"
    using m by (rule fit_mat_morph_defaulted)
  ultimately have "\<not> list_all (\<lambda>d. dict_has (h' d) ''fun'') ds"
    by (simp add: list_all_iff defaulted_fun)
  then show ?thesis
    using ds by simp
qed

lemma unusable_after_fit_raised:
  assumes "unusable (h, p)" and "fit env (h, p) = (Inl e, (h', p'))"
  shows "unusable (h', p')"
proof -
  have u: "unusable (h', p)"
    using assms(1) fit_defaulted [OF assms(2)] by (rule unusable_defaulted)
  show ?thesis
    using u fit_fields [OF assms(2)] fit_raised_mth [OF assms(2)]
    by (auto simp: unusable_def)
qed

lemma predict_after_failed_fit:
  assumes "fit env (h, init b f m) = (Inl e, (h', p'))"
    and "predict env (h', p') X = (r, (h'', p''))"
  shows "(\<exists>e'. r = Inl e') \<and> motion_mask p'' = None"
proof -
  have "unusable (h, init b f m)"
    by (simp add: unusable_def init_def)
  then have u: "unusable (h', p')"
    using assms(1) by (rule unusable_after_fit_raised)
  have "unusable (h'', p'')"
    using u assms(2) by (rule unusable_after_predict)
  then show ?thesis
    using unusable_predict [OF u assms(2)] by (simp add: unusable_def)
qed

text \<open>
  Claim C7. On a freshly constructed object \<^verbatim>\<open>predict\<close> raises and leaves the state as
  it was (first line), and it goes on raising after a failed \<^verbatim>\<open>fit\<close> while the
  dictionaries are left alone. But \<^verbatim>\<open>predict\<close> has no test of its own for a completed
  \<^verbatim>\<open>fit\<close>: it fails only where it happens to reach something missing. On the object of
  claim C2, where \<^verbatim>\<open>fit\<close> raised at the second entry of \<^verbatim>\<open>mat_morph\<close> with the
  subtractor already bound, \<^verbatim>\<open>predict\<close> does not fail at once: it first applies the
  subtractor to the frame, which then holds that frame in its model, and raises only at
  the entry. Once the caller has written a \<^verbatim>\<open>fun\<close> into that entry, \<^verbatim>\<open>predict\<close> returns
  verdicts and exposes \<^verbatim>\<open>motion_mask_\<close>, although \<^verbatim>\<open>fit\<close> has never returned on the
  object; the verdict 1 for the first frame comes from the comparison with the frame of
  the call that raised.
\<close>

theorem predict_without_fit:
  "(\<exists>e. predict env (h, init b f m) X = (Inl e, (h, init b f m))) \<and>
   fit toy_cv (example_heap, broken_gofpid) =
     (Inl (ValueError MatMorphNoFun),
      (example_heap(1 := [(''fun'', VFun Erode), (''kernel'', rect_5x5)]),
       broken_gofpid\<lparr>frg_detect_mth := Some None\<rparr>)) \<and>
   run toy_cv
       (example_heap(1 := [(''fun'', VFun Erode), (''kernel'', rect_5x5)]),
        broken_gofpid\<lparr>frg_detect_mth := Some None\<rparr>) [frame_a] =
     ([Inl TypeError],
      (example_heap(1 := [(''fun'', VFun Erode), (''kernel'', rect_5x5)]),
       broken_gofpid\<lparr>frg_detect_mth := Some (Some frame_a)\<rparr>)) \<and>
   run toy_cv
       (example_heap(1 := [(''fun'', VFun Erode), (''kernel'', rect_5x5)],
                     5 := [(''kernel'', rect_5x5), (''fun'', VFun Dilate)]),
        broken_gofpid\<lparr>frg_detect_mth := Some (Some frame_a)\<rparr>) [frame_c, frame_c] =
     ([Inr 1, Inr 0],
      (example_heap(1 := [(''fun'', VFun Erode), (''kernel'', rect_5x5)],
                    5 := [(''kernel'', rect_5x5), (''fun'', VFun Dilate)]),
       broken_gofpid\<lparr>frg_detect_mth := Some (Some frame_c), motion_mask := Some zeros_2x2\<rparr>))"
proof -
  have "\<exists>e. predict env (h, init b f m) X = (Inl e, (h, init b f m))"
    by (rule predict_unbound) (simp add: init_def)
  moreover have "run toy_cv
       (example_heap(1 := [(''fun'', VFun Erode), (''kernel'', rect_5x5)]),
        broken_gofpid\<lparr>frg_detect_mth := Some None\<rparr>) [frame_a] =
     ([Inl TypeError],
      (example_heap(1 := [(''fun'', VFun Erode), (''kernel'', rect_5x5)]),
       broken_gofpid\<lparr>frg_detect_mth := Some (Some frame_a)\<rparr>))"
    by (simp add: model_defs example_defs)
  moreover have "run toy_cv
       (example_heap(1 := [(''fun'', VFun Erode), (''kernel'', rect_5x5)],
                     5 := [(''kernel'', rect_5x5), (''fun'', VFun Dilate)]),
        broken_gofpid\<lparr>frg_detect_mth := Some (Some frame_a)\<rparr>) [frame_c, frame_c] =
     ([Inr 1, Inr 0],
      (example_heap(1 := [(''fun'', VFun Erode), (''kernel'', rect_5x5)],
                    5 := [(''kernel'', rect_5x5), (''fun'', VFun Dilate)]),
       broken_gofpid\<lparr>frg_detect_mth := Some (Some frame_c), motion_mask := Some zeros_2x2\<rparr>))"
    by (simp add: model_defs example_defs zeros_2x2_def)
  ultimately show ?thesis
    using fit_broken by simp
qed

section \<open>Determinism\<close>

text \<open>
  Claim C8. Let an object \<open>p\<close> be fitted on a valid configuration and fed a sequence of
  frames, and let a second object \<open>q\<close> refer to dictionaries with the same contents as
  those of \<open>p\<close> had (\<open>config h0 q = config h p\<close>): dictionaries of its own, in the same
  store or in another, or the very same ones, which by the time \<open>q\<close> is fitted may have
  gained defaults (\<open>defaulted h0 h'\<close>). Then \<^verbatim>\<open>fit\<close> has the same outcome on \<open>q\<close>, and
  fed the same frames \<open>q\<close> returns the same verdicts and raises the same errors, frame
  by frame. The OpenCV collaborators are functions of their arguments and of the
  subtractor's model.
\<close>

theorem predict_deterministic:
  assumes "config h0 q = config h p" and "defaulted h0 h'"
  shows "fst (fit env (h', q)) = fst (fit env (h, p)) \<and>
         (fst (fit env (h, p)) = Inr () \<longrightarrow>
            fst (run env (snd (fit env (h', q))) Xs) = fst (run env (snd (fit env (h, p))) Xs))"
proof -
  have "fst (run env (snd (fit env (h', q))) Xs) = fst (run env (snd (fit env (h, p))) Xs)"
    if "fst (fit env (h, p)) = Inr ()"
  proof -
    have "fit env (h, p) = (Inr (), snd (fit env (h, p)))"
      using that by (metis prod.collapse)
    from fit_run_defaulted [OF assms this, of Xs] show ?thesis
      by auto
  qed
  then show ?thesis
    using fit_outcome_defaulted [OF assms] by blast
qed

theorem predict_deterministic_witness:
  "config (fst example_fitted) twin_gofpid = config example_heap example_gofpid \<and>
   defaulted example_heap (fst example_fitted) \<and>
   fst (fit toy_cv (example_heap, example_gofpid)) = Inr () \<and>
   fst (fit toy_cv (fst example_fitted, twin_gofpid)) = Inr () \<and>
   fst (fit toy_cv (fst example_fitted, example_gofpid)) = Inr () \<and>
   fst (run toy_cv (snd (fit toy_cv (example_heap, example_gofpid))) [frame_a, frame_b, frame_b])
     = [Inr 0, Inr 1, Inr 0] \<and>
   fst (run toy_cv (snd (fit toy_cv (fst example_fitted, twin_gofpid))) [frame_a, frame_b, frame_b])
     = [Inr 0, Inr 1, Inr 0] \<and>
   fst (run toy_cv (snd (fit toy_cv (fst example_fitted, example_gofpid))) [frame_a, frame_b, frame_b])
     = [Inr 0, Inr 1, Inr 0]"
proof -
  have c: "config (fst example_fitted) twin_gofpid = config example_heap example_gofpid"
    by (simp add: config_def twin_gofpid_def model_defs example_defs)
  have d: "defaulted example_heap (fst example_fitted)"
    using fit_defaulted [of toy_cv example_heap example_gofpid "Inr ()" "fst example_fitted"
        "snd example_fitted"] fit_example by simp
  have r: "fst (run toy_cv example_fitted [frame_a, frame_b, frame_b]) = [Inr 0, Inr 1, Inr 0]"
    by (simp add: model_defs example_defs)
  from predict_deterministic [OF c defaulted_refl, of toy_cv "[frame_a, frame_b, frame_b]"]
    predict_deterministic [OF refl d, of toy_cv example_gofpid "[frame_a, frame_b, frame_b]"]
    c d r fit_example
  show ?thesis
    by simp
qed

section \<open>Fitting again\<close>

lemma predict_stale_mask:
  "predict env (h, p\<lparr>motion_mask := mm\<rparr>) X = (Inr v, s') \<Longrightarrow> predict env (h, p) X = (Inr v, s')"
  by (auto simp: predict_def Let_def split: sum.splits option.splits prod.splits)

lemma refit:
  assumes 1: "fit env (h, p) = (Inr (), (h1, p1))" and 2: "run env (h1, p1) Xs = (rs, (h2, p2))"
  shows "fit env (h2, p2) = (Inr (), (h1, p1\<lparr>motion_mask := motion_mask p2\<rparr>))"
proof -
  obtain bg where bg: "fit_frg_detect env (frg_detect p) = Inr bg"
    and p1: "p1 = p\<lparr>frg_detect_mth := Some bg\<rparr>"
    and ready: "blur_ready h1 (blur p)" "mat_morph_ready h1 (mat_morph p)"
    using fit_returned [OF 1] by blast
  have f: "h2 = h1" "blur p2 = blur p" "frg_detect p2 = frg_detect p" "mat_morph p2 = mat_morph p"
    using run_fields [OF 2] p1 by simp_all
  have "fit env (h2, p2) = (Inr (), (h2, p2\<lparr>frg_detect_mth := Some bg\<rparr>))"
    using ready bg f by (intro fit_ready) simp_all
  moreover have "p2\<lparr>frg_detect_mth := Some bg\<rparr> = p1\<lparr>motion_mask := motion_mask p2\<rparr>"
    using f p1 by (cases p; cases p2) simp
  ultimately show ?thesis
    using f by simp
qed

text \<open>
  Claim C10, as stated: after \<^verbatim>\<open>fit\<close> is called again the object is exactly like a freshly
  configured one. It is not: a freshly configured object has no \<^verbatim>\<open>motion_mask_\<close>, while
  the object fitted again still exposes the mask of the last frame it processed before.
\<close>

theorem refit_keeps_mask:
  "fit toy_cv (example_heap, example_gofpid) = (Inr (), example_fitted) \<and>
   motion_mask (snd example_fitted) = None \<and>
   motion_mask (snd (snd (fit toy_cv (snd (run toy_cv example_fitted [frame_a, frame_b])))))
     = Some ones_2x2 \<and>
   snd (fit toy_cv (snd (run toy_cv example_fitted [frame_a, frame_b]))) \<noteq> example_fitted"
proof -
  have "motion_mask (snd example_fitted) = None"
    by (simp add: model_defs example_defs)
  moreover have "motion_mask (snd (snd (fit toy_cv (snd (run toy_cv example_fitted [frame_a, frame_b])))))
     = Some ones_2x2"
    unfolding run_example by (simp add: model_defs example_defs)
  ultimately show ?thesis
    using fit_example by auto
qed

text \<open>
  Claim C10, amended. Called on an object that was fitted and has processed any frames
  since, \<^verbatim>\<open>fit\<close> returns, leaves the dictionaries as they are and binds the subtractor
  the constructor returns, so that the object is in the state the first \<^verbatim>\<open>fit\<close> left it
  in but for \<^verbatim>\<open>motion_mask_\<close>, which keeps the last mask. From there every sequence of
  frames has the outcomes it has on the freshly configured object, and a call of
  \<^verbatim>\<open>predict\<close> that returns leaves the very state it leaves the fresh object in.
\<close>

theorem refit_resets:
  assumes "fit env (h, p) = (Inr (), s1)" and "run env s1 Xs = (rs, s2)"
  shows "fit env s2 = (Inr (), (fst s1, (snd s1)\<lparr>motion_mask := motion_mask (snd s2)\<rparr>)) \<and>
         frg_detect_mth (snd (snd (fit env s2))) =
           Some (if frg_detect p = VStr ''MOG2'' then createBackgroundSubtractorMOG2 env
                 else createBackgroundSubtractorKNN env) \<and>
         fst (run env (snd (fit env s2)) Ys) = fst (run env s1 Ys) \<and>
         (predict env (snd (fit env s2)) Y = (Inr v, s') \<longrightarrow> predict env s1 Y = (Inr v, s'))"
proof -
  obtain h1 p1 h2 p2 where s: "s1 = (h1, p1)" "s2 = (h2, p2)"
    by (metis prod.exhaust)
  have r: "fit env s2 = (Inr (), (h1, p1\<lparr>motion_mask := motion_mask p2\<rparr>))"
    using refit assms s by blast
  have "frg_detect_mth p1 =
          Some (if frg_detect p = VStr ''MOG2'' then createBackgroundSubtractorMOG2 env
                else createBackgroundSubtractorKNN env)"
    using fit_returned [of env h p h1 p1] assms(1) s
    by (auto simp: fit_frg_detect_def split: if_splits)
  moreover have "fst (run env (h1, p1\<lparr>motion_mask := motion_mask p2\<rparr>) Ys) = fst (run env (h1, p1) Ys)"
    by (rule run_reads) (simp_all add: reads_def)
  moreover have "predict env (h1, p1\<lparr>motion_mask := motion_mask p2\<rparr>) Y = (Inr v, s') \<longrightarrow>
                 predict env (h1, p1) Y = (Inr v, s')"
    using predict_stale_mask by blast
  ultimately show ?thesis
    using r s by simp
qed

theorem refit_resets_witness:
  "fit toy_cv (example_heap, example_gofpid) = (Inr (), example_fitted) \<and>
   run toy_cv example_fitted [frame_a, frame_b] =
     ([Inr 0, Inr 1],
      (fst example_fitted,
       (snd example_fitted)\<lparr>frg_detect_mth := Some (Some frame_b), motion_mask := Some ones_2x2\<rparr>)) \<and>
   fit toy_cv (snd (run toy_cv example_fitted [frame_a, frame_b])) =
     (Inr (), (fst example_fitted, (snd example_fitted)\<lparr>motion_mask := Some ones_2x2\<rparr>)) \<and>
   fst (run toy_cv (snd (fit toy_cv (snd (run toy_cv example_fitted [frame_a, frame_b]))))
          [frame_b, frame_a]) = [Inr 0, Inr 1] \<and>
   fst (run toy_cv example_fitted [frame_b, frame_a]) = [Inr 0, Inr 1] \<and>
   predict toy_cv (snd (fit toy_cv (snd (run toy_cv example_fitted [frame_a, frame_b])))) frame_b =
     (Inr 0, (fst example_fitted,
        (snd example_fitted)\<lparr>frg_detect_mth := Some (Some frame_b), motion_mask := Some zeros_2x2\<rparr>)) \<and>
   predict toy_cv example_fitted frame_b =
     (Inr 0, (fst example_fitted,
        (snd example_fitted)\<lparr>frg_detect_mth := Some (Some frame_b), motion_mask := Some zeros_2x2\<rparr>))"
proof -
  let ?s2 = "(fst example_fitted,
       (snd example_fitted)\<lparr>frg_detect_mth := Some (Some frame_b), motion_mask := Some ones_2x2\<rparr>)"
  let ?s' = "(fst example_fitted,
        (snd example_fitted)\<lparr>frg_detect_mth := Some (Some frame_b), motion_mask := Some zeros_2x2\<rparr>)"
  have p: "predict toy_cv (fst example_fitted, (snd example_fitted)\<lparr>motion_mask := Some ones_2x2\<rparr>)
             frame_b = (Inr 0, ?s')"
    by (simp add: model_defs example_defs zeros_2x2_def)
  have r: "fst (run toy_cv example_fitted [frame_b, frame_a]) = [Inr 0, Inr 1]"
    by (simp add: model_defs example_defs)
  from refit_resets [OF fit_example run_example, where Ys = "[frame_b, frame_a]" and Y = frame_b
      and v = 0 and s' = ?s']
    fit_example run_example p r
  show ?thesis
    by simp
qed

section \<open>fit writes the defaults into the caller's dictionaries\<close>

lemma fit_blur_no_fun: "fit_blur h b = Inr h1 \<Longrightarrow> \<not> dict_has (h a) ''fun'' \<Longrightarrow> h1 a = h a"
  by (auto simp: fit_blur_def Let_def split: option.splits if_splits)

lemma fit_blur_other: "fit_blur h b = Inr h1 \<Longrightarrow> b \<noteq> Some a \<Longrightarrow> h1 a = h a"
  by (auto simp: fit_blur_def Let_def split: option.splits if_splits)

lemma fit_mat_morph_no_fun:
  "fit_mat_morph h ds = (r, h2) \<Longrightarrow> \<not> dict_has (h a) ''fun'' \<Longrightarrow> h2 a = h a"
proof (induction ds arbitrary: h)
  case Nil
  then show ?case by simp
next
  case (Cons d ds)
  show ?case
  proof (cases "dict_has (h d) ''fun''")
    case False
    then show ?thesis
      using Cons.prems by simp
  next
    case True
    let ?h = "if \<not> dict_has (h d) ''kernel'' then h(d := dict_set (h d) ''kernel'' rect_5x5) else h"
    have n: "a \<noteq> d"
      using True Cons.prems(2) by auto
    have "fit_mat_morph ?h ds = (r, h2)"
      using Cons.prems(1) True by simp
    moreover have "\<not> dict_has (?h a) ''fun''"
      using Cons.prems(2) n by simp
    ultimately have "h2 a = ?h a"
      by (rule Cons.IH)
    then show ?thesis
      using n by simp
  qed
qed

lemma fit_mat_morph_stops:
  "\<not> dict_has (h d) ''fun'' \<Longrightarrow> a \<notin> set ds1 \<Longrightarrow> snd (fit_mat_morph h (ds1 @ d # ds2)) a = h a"
proof (induction ds1 arbitrary: h)
  case Nil
  then show ?case by simp
next
  case (Cons x xs)
  show ?case
  proof (cases "dict_has (h x) ''fun''")
    case False
    then show ?thesis by simp
  next
    case True
    let ?h = "if \<not> dict_has (h x) ''kernel'' then h(x := dict_set (h x) ''kernel'' rect_5x5) else h"
    have "\<not> dict_has (?h d) ''fun''"
      using Cons.prems(1) True by auto
    moreover have "a \<notin> set xs"
      using Cons.prems(2) by simp
    ultimately have "snd (fit_mat_morph ?h (xs @ d # ds2)) a = ?h a"
      by (rule Cons.IH)
    moreover have "?h a = h a"
      using Cons.prems(2) by simp
    ultimately show ?thesis
      using True by simp
  qed
qed

lemma fit_no_fun_untouched:
  assumes "fit env (h, p) = (r, (h', p'))" and "\<not> dict_has (h a) ''fun''"
  shows "h' a = h a"
proof (cases "fit_blur h (blur p)")
  case (Inl e)
  then show ?thesis
    using assms(1) by (simp add: fit_def)
next
  case (Inr h1)
  have 1: "h1 a = h a"
    using Inr assms(2) by (rule fit_blur_no_fun)
  have "h' = h1 \<or> (\<exists>ds r. fit_mat_morph h1 ds = (r, h'))"
    using assms(1) Inr
    by (auto simp: fit_def Let_def split: sum.splits option.splits if_splits prod.splits)
  then show ?thesis
    using 1 assms(2) fit_mat_morph_no_fun [of h1 _ _ h' a] by auto
qed

lemma fit_not_reached:
  assumes "fit env (h, p) = (r, (h', p'))" and "mat_morph p = Some (ds1 @ d # ds2)"
    and "\<not> dict_has (h d) ''fun''" and "blur p \<noteq> Some a" and "a \<notin> set ds1"
  shows "h' a = h a"
proof (cases "fit_blur h (blur p)")
  case (Inl e)
  then show ?thesis
    using assms(1) by (simp add: fit_def)
next
  case (Inr h1)
  have 1: "h1 a = h a"
    using Inr assms(4) by (rule fit_blur_other)
  have 2: "\<not> dict_has (h1 d) ''fun''"
    using fit_blur_no_fun [OF Inr assms(3)] assms(3) by simp
  have "h' = h1 \<or> h' = snd (fit_mat_morph h1 (ds1 @ d # ds2))"
    using assms(1,2) Inr
    by (auto simp: fit_def Let_def split: sum.splits option.splits if_splits prod.splits)
  then show ?thesis
    using 1 2 assms(5) fit_mat_morph_stops [of h1 d a ds1 ds2] by auto
qed

text \<open>
  Claim C9, as stated: after \<^verbatim>\<open>fit\<close>, an existing \<^verbatim>\<open>blur\<close> dictionary has the keys
  \<^verbatim>\<open>ksize\<close> and \<^verbatim>\<open>borderType\<close>, and each entry of \<^verbatim>\<open>mat_morph\<close> has the key \<^verbatim>\<open>kernel\<close>.
  Not so for an empty \<^verbatim>\<open>blur\<close> dictionary (\<^verbatim>\<open>fit\<close> returns and has written nothing into
  it), for a \<^verbatim>\<open>blur\<close> dictionary without \<^verbatim>\<open>fun\<close> (\<^verbatim>\<open>fit\<close> raises before it writes), and
  for the entries of \<^verbatim>\<open>mat_morph\<close> behind an entry without \<^verbatim>\<open>fun\<close> (\<^verbatim>\<open>fit\<close> raises
  before it reaches them).
\<close>

theorem fit_inserts_nothing:
  "blur empty_blur_gofpid = Some 3 \<and>
   fit toy_cv (example_heap, empty_blur_gofpid) =
     (Inr (), (example_heap, empty_blur_gofpid\<lparr>frg_detect_mth := Some None\<rparr>)) \<and>
   \<not> dict_has (example_heap 3) ''ksize'' \<and> \<not> dict_has (example_heap 3) ''borderType'' \<and>
   blur no_fun_blur_gofpid = Some 4 \<and>
   fit toy_cv (example_heap, no_fun_blur_gofpid) =
     (Inl (ValueError BlurNoFun), (example_heap, no_fun_blur_gofpid)) \<and>
   \<not> dict_has (example_heap 4) ''borderType'' \<and>
   fit toy_cv (example_heap, init None (VStr ''MOG2'') (Some [5, 1])) =
     (Inl (ValueError MatMorphNoFun),
      (example_heap, init None (VStr ''MOG2'') (Some [5, 1])\<lparr>frg_detect_mth := Some None\<rparr>)) \<and>
   \<not> dict_has (example_heap 1) ''kernel''"
  by (simp add: model_defs empty_blur_gofpid_def no_fun_blur_gofpid_def)

text \<open>
  Claim C9, amended. \<^verbatim>\<open>fit\<close> keeps the references the object holds and writes into the
  dictionaries they refer to: the store afterwards is the store before with defaults
  added (\<open>defaulted\<close>). Whatever the outcome, a \<^verbatim>\<open>blur\<close> dictionary with a \<^verbatim>\<open>fun\<close> has
  the keys \<^verbatim>\<open>ksize\<close> and \<^verbatim>\<open>borderType\<close> afterwards, with the value it had or else the
  default; when \<^verbatim>\<open>fit\<close> returns, every entry of \<^verbatim>\<open>mat_morph\<close> has a \<^verbatim>\<open>kernel\<close>, the one
  it had or else the 5 by 5 rectangle. A dictionary without \<^verbatim>\<open>fun\<close> is left as it is, an
  empty one in particular (as \<^verbatim>\<open>blur\<close> it is skipped, as an entry of \<^verbatim>\<open>mat_morph\<close> it
  makes \<^verbatim>\<open>fit\<close> raise); and when an entry of \<^verbatim>\<open>mat_morph\<close> has no \<^verbatim>\<open>fun\<close>, the entries
  that occur only behind it are left as they are. The dictionaries are in the store, so
  whoever holds the same references reads the inserted entries: \<^verbatim>\<open>predict\<close> on another
  object \<open>q\<close> with these references reads what it reads on this one. Objects constructed
  without arguments all hold the references 0, 1 and 2 (\<open>init_default\<close>).
\<close>

theorem fit_in_place:
  assumes "fit env (h, p) = (r, (h', p'))"
  shows "blur p' = blur p \<and> mat_morph p' = mat_morph p \<and> defaulted h h' \<and>
         (blur p = Some a \<and> dict_has (h a) ''fun'' \<longrightarrow>
            dict_has (h' a) ''ksize'' \<and> dict_has (h' a) ''borderType'' \<and>
            dict_get (h' a) ''ksize'' =
              (if dict_has (h a) ''ksize'' then dict_get (h a) ''ksize'' else VTuple [3, 3]) \<and>
            dict_get (h' a) ''borderType'' =
              (if dict_has (h a) ''borderType'' then dict_get (h a) ''borderType''
               else BORDER_DEFAULT)) \<and>
         (r = Inr () \<and> mat_morph p = Some ds \<and> d \<in> set ds \<longrightarrow>
            dict_has (h' d) ''kernel'' \<and>
            dict_get (h' d) ''kernel'' =
              (if dict_has (h d) ''kernel'' then dict_get (h d) ''kernel'' else rect_5x5)) \<and>
         (h b = [] \<longrightarrow> h' b = []) \<and>
         (\<not> dict_has (h b) ''fun'' \<longrightarrow> h' b = h b) \<and>
         (mat_morph p = Some (ds1 @ d1 # ds2) \<and> \<not> dict_has (h d1) ''fun'' \<and>
          blur p \<noteq> Some d2 \<and> d2 \<notin> set ds1 \<longrightarrow> h' d2 = h d2) \<and>
         (blur q = blur p \<and> mat_morph q = mat_morph p \<longrightarrow> reads h' q = reads h' p')"
proof -
  have 1: "blur p' = blur p \<and> mat_morph p' = mat_morph p \<and> defaulted h h'"
    using fit_fields [OF assms] fit_defaulted [OF assms] by simp
  have 2: "blur p = Some a \<and> dict_has (h a) ''fun'' \<longrightarrow>
            dict_has (h' a) ''ksize'' \<and> dict_has (h' a) ''borderType'' \<and>
            dict_get (h' a) ''ksize'' =
              (if dict_has (h a) ''ksize'' then dict_get (h a) ''ksize'' else VTuple [3, 3]) \<and>
            dict_get (h' a) ''borderType'' =
              (if dict_has (h a) ''borderType'' then dict_get (h a) ''borderType''
               else BORDER_DEFAULT)"
    using fit_blur_passed [OF assms] fit_blur_values [OF assms] by blast
  have 3: "r = Inr () \<and> mat_morph p = Some ds \<and> d \<in> set ds \<longrightarrow>
            dict_has (h' d) ''kernel'' \<and>
            dict_get (h' d) ''kernel'' =
              (if dict_has (h d) ''kernel'' then dict_get (h d) ''kernel'' else rect_5x5)"
    using fit_kernel_values assms by blast
  have 4: "blur q = blur p \<and> mat_morph q = mat_morph p \<longrightarrow> reads h' q = reads h' p'"
    using 1 by (simp add: reads_def)
  have 5: "h b = [] \<longrightarrow> h' b = []"
    using 1 defaulted_Nil by blast
  have 6: "\<not> dict_has (h b) ''fun'' \<longrightarrow> h' b = h b"
    using fit_no_fun_untouched [OF assms] by blast
  have 7: "mat_morph p = Some (ds1 @ d1 # ds2) \<and> \<not> dict_has (h d1) ''fun'' \<and>
          blur p \<noteq> Some d2 \<and> d2 \<notin> set ds1 \<longrightarrow> h' d2 = h d2"
    using fit_not_reached [OF assms] by blast
  show ?thesis
    using 1 2 3 4 5 6 7 by blast
qed

theorem fit_in_place_witness:
  "fit toy_cv (stripped_heap, init_default) =
     (Inr (), (restored_heap, init_default\<lparr>frg_detect_mth := Some None\<rparr>)) \<and>
   blur (init_default :: ndarray option gofpid) = Some 0 \<and>
   mat_morph (init_default :: ndarray option gofpid) = Some [1, 2] \<and>
   dict_has (stripped_heap 0) ''fun'' \<and>
   defaulted stripped_heap restored_heap \<and>
   dict_get (restored_heap 0) ''ksize'' = VTuple [3, 3] \<and>
   dict_get (restored_heap 0) ''borderType'' = BORDER_DEFAULT \<and>
   dict_get (restored_heap 2) ''kernel'' = rect_5x5 \<and>
   stripped_heap 3 = [] \<and> restored_heap 3 = [] \<and>
   reads restored_heap (init_default :: ndarray option gofpid)
     = reads restored_heap (init_default\<lparr>frg_detect_mth := Some None\<rparr> :: ndarray option gofpid) \<and>
   fit toy_cv (example_heap, init (Some 0) (VStr ''MOG2'') (Some [2, 5, 1])) =
     (Inl (ValueError MatMorphNoFun),
      (example_heap(0 := [(''fun'', VFun GaussianBlur), (''ksize'', VTuple [3, 3]),
                          (''borderType'', BORDER_DEFAULT)]),
       init (Some 0) (VStr ''MOG2'') (Some [2, 5, 1])\<lparr>frg_detect_mth := Some None\<rparr>)) \<and>
   dict_get (example_heap 0) ''ksize'' = VNone \<and>
   example_heap 1 = [(''fun'', VFun Erode)] \<and> example_heap 5 = [(''kernel'', rect_5x5)]"
proof -
  let ?p = "init_default :: ndarray option gofpid"
  let ?q = "init (Some 0) (VStr ''MOG2'') (Some [2, 5, 1]) :: ndarray option gofpid"
  let ?h = "example_heap(0 := [(''fun'', VFun GaussianBlur), (''ksize'', VTuple [3, 3]),
                               (''borderType'', BORDER_DEFAULT)])"
  have f: "fit toy_cv (stripped_heap, ?p) = (Inr (), (restored_heap, ?p\<lparr>frg_detect_mth := Some None\<rparr>))"
    by (simp add: model_defs stripped_heap_def restored_heap_def)
  have c: "blur ?p = Some 0 \<and> mat_morph ?p = Some [1, 2] \<and> dict_has (stripped_heap 0) ''fun'' \<and>
           \<not> dict_has (stripped_heap 0) ''ksize'' \<and> \<not> dict_has (stripped_heap 0) ''borderType'' \<and>
           \<not> dict_has (stripped_heap 2) ''kernel'' \<and> stripped_heap 3 = []"
    by (simp add: model_defs stripped_heap_def)
  have 1: "defaulted stripped_heap restored_heap \<and>
     dict_get (restored_heap 0) ''ksize'' = VTuple [3, 3] \<and>
     dict_get (restored_heap 0) ''borderType'' = BORDER_DEFAULT \<and>
     dict_get (restored_heap 2) ''kernel'' = rect_5x5 \<and> restored_heap 3 = [] \<and>
     reads restored_heap ?p = reads restored_heap (?p\<lparr>frg_detect_mth := Some None\<rparr>)"
    using fit_in_place [OF f, where a = 0 and ds = "[1, 2]" and d = 2 and b = 3 and q = ?p
        and ?ds1.0 = "[]" and ?d1.0 = 0 and ?ds2.0 = "[]" and ?d2.0 = 0] c
    by simp
  have g: "fit toy_cv (example_heap, ?q) = (Inl (ValueError MatMorphNoFun), (?h, ?q\<lparr>frg_detect_mth := Some None\<rparr>))"
    by (simp add: model_defs)
  have e: "blur ?q = Some 0 \<and> mat_morph ?q = Some ([2] @ 5 # [1]) \<and> dict_has (example_heap 0) ''fun'' \<and>
           \<not> dict_has (example_heap 0) ''ksize'' \<and> \<not> dict_has (example_heap 5) ''fun'' \<and>
           example_heap 1 = [(''fun'', VFun Erode)] \<and> example_heap 5 = [(''kernel'', rect_5x5)]"
    by (simp add: model_defs)
  have 2: "dict_get (?h 0) ''ksize'' = VTuple [3, 3] \<and> ?h 5 = example_heap 5 \<and> ?h 1 = example_heap 1"
    using fit_in_place [OF g, where a = 0 and ds = "[]" and d = 0 and b = 5 and q = ?q
        and ?ds1.0 = "[2]" and ?d1.0 = 5 and ?ds2.0 = "[1]" and ?d2.0 = 1] e
    by simp
  have k: "dict_get (example_heap 0) ''ksize'' = VNone"
    by (simp add: model_defs)
  show ?thesis
    using 1 2 f c g e k by simp
qed

section \<open>Validation and defaults\<close>

text \<open>
  Claim C6, as stated: for every \<^verbatim>\<open>blur\<close> that is not \<^verbatim>\<open>None\<close>, \<^verbatim>\<open>fit\<close> raises when the
  key \<^verbatim>\<open>fun\<close> is absent. Line 90 tests the truth value of \<^verbatim>\<open>self.blur\<close>, and an empty
  dictionary is false: with \<^verbatim>\<open>blur={}\<close>, which is not \<^verbatim>\<open>None\<close> and has no \<^verbatim>\<open>fun\<close>,
  \<^verbatim>\<open>fit\<close> returns.
\<close>

theorem fit_empty_blur:
  "blur empty_blur_gofpid = Some 3 \<and>
   \<not> dict_has (example_heap 3) ''fun'' \<and>
   fit toy_cv (example_heap, empty_blur_gofpid) =
     (Inr (), (example_heap, empty_blur_gofpid\<lparr>frg_detect_mth := Some None\<rparr>))"
  by (simp add: model_defs empty_blur_gofpid_def)

lemma validate_cases: "validate c = Inr () \<or> (\<exists>m. validate c = Inl (ValueError m))"
  by (cases c) (simp add: validate_def)

lemma fit_no_fun_entry:
  assumes "mat_morph p = Some ds" and "d \<in> set ds" and "\<not> dict_has (h d) ''fun''"
  shows "\<exists>m. fst (fit env (h, p)) = Inl (ValueError m)"
proof -
  have "\<not> list_all (\<lambda>d. dict_has d ''fun'') (map h ds)"
    using assms(2,3) by (auto simp: list_all_iff)
  then have "validate (config h p) \<noteq> Inr ()"
    using assms(1) by (simp add: validate_def config_def)
  then show ?thesis
    using validate_cases [of "config h p"] by (simp add: fit_outcome)
qed

lemma fit_explicit_kernels:
  assumes "fit env (h, p) = (Inr (), s1)" and "mat_morph p = Some ds"
  shows "fst (fit env (explicit_kernels h ds, p)) = Inr () \<and>
         fst (run env (snd (fit env (explicit_kernels h ds, p))) Xs) = fst (run env s1 Xs)"
proof -
  have "defaulted h (explicit_kernels h ds)"
    using fit_returned_fun [OF assms] by (rule explicit_kernels_defaulted)
  from fit_run_defaulted [OF refl this assms(1), of Xs] show ?thesis
    by auto
qed

text \<open>
  Claim C6, amended. An empty \<^verbatim>\<open>blur\<close> dictionary is treated like \<^verbatim>\<open>None\<close>: the check of
  \<^verbatim>\<open>fit\<close> passes and writes nothing, and the denoiser returns its argument. For every
  \<^verbatim>\<open>blur\<close> dictionary that is not empty, \<^verbatim>\<open>fit\<close> raises the error for the missing
  \<^verbatim>\<open>fun\<close> (and changes nothing) when \<^verbatim>\<open>fun\<close> is absent, and otherwise leaves \<^verbatim>\<open>ksize\<close>
  as it was or else \<open>(3, 3)\<close> and \<^verbatim>\<open>borderType\<close> as it was or else
  \<^verbatim>\<open>cv.BORDER_DEFAULT\<close>. For every \<^verbatim>\<open>mat_morph\<close> list, \<^verbatim>\<open>fit\<close> raises a \<^verbatim>\<open>ValueError\<close>
  when some entry has no \<^verbatim>\<open>fun\<close>; when it returns, every entry has the kernel it had
  or else the 5 by 5 rectangle, and the object then answers every sequence of frames
  as it does when the caller has written that kernel into the entries that lacked one
  (\<open>explicit_kernels\<close>) before \<^verbatim>\<open>fit\<close>.
\<close>

theorem fit_validation:
  "(blur p = Some a \<and> h a = [] \<longrightarrow>
      fit_blur h (blur p) = Inr h \<and> denoise env h (blur p) X = Inr X) \<and>
   (blur p = Some a \<and> h a \<noteq> [] \<and> \<not> dict_has (h a) ''fun'' \<longrightarrow>
      fit env (h, p) = (Inl (ValueError BlurNoFun), (h, p))) \<and>
   (blur p = Some a \<and> dict_has (h a) ''fun'' \<and> fit env (h, p) = (r, (h', p')) \<longrightarrow>
      dict_get (h' a) ''ksize'' =
        (if dict_has (h a) ''ksize'' then dict_get (h a) ''ksize'' else VTuple [3, 3]) \<and>
      dict_get (h' a) ''borderType'' =
        (if dict_has (h a) ''borderType'' then dict_get (h a) ''borderType''
         else BORDER_DEFAULT)) \<and>
   (mat_morph p = Some ds \<and> d \<in> set ds \<and> \<not> dict_has (h d) ''fun'' \<longrightarrow>
      (\<exists>m. fst (fit env (h, p)) = Inl (ValueError m))) \<and>
   (mat_morph p = Some ds \<and> d \<in> set ds \<and> fit env (h, p) = (Inr (), (h', p')) \<longrightarrow>
      dict_get (h' d) ''kernel'' =
        (if dict_has (h d) ''kernel'' then dict_get (h d) ''kernel'' else rect_5x5) \<and>
      fst (fit env (explicit_kernels h ds, p)) = Inr () \<and>
      fst (run env (snd (fit env (explicit_kernels h ds, p))) Xs) = fst (run env (h', p') Xs))"
proof -
  have 1: "blur p = Some a \<and> h a = [] \<longrightarrow>
      fit_blur h (blur p) = Inr h \<and> denoise env h (blur p) X = Inr X"
    by (simp add: fit_blur_def denoise_def)
  have 2: "blur p = Some a \<and> h a \<noteq> [] \<and> \<not> dict_has (h a) ''fun'' \<longrightarrow>
      fit env (h, p) = (Inl (ValueError BlurNoFun), (h, p))"
    by (simp add: fit_def fit_blur_def)
  have 3: "blur p = Some a \<and> dict_has (h a) ''fun'' \<and> fit env (h, p) = (r, (h', p')) \<longrightarrow>
      dict_get (h' a) ''ksize'' =
        (if dict_has (h a) ''ksize'' then dict_get (h a) ''ksize'' else VTuple [3, 3]) \<and>
      dict_get (h' a) ''borderType'' =
        (if dict_has (h a) ''borderType'' then dict_get (h a) ''borderType''
         else BORDER_DEFAULT)"
    using fit_blur_values by blast
  have 4: "mat_morph p = Some ds \<and> d \<in> set ds \<and> \<not> dict_has (h d) ''fun'' \<longrightarrow>
      (\<exists>m. fst (fit env (h, p)) = Inl (ValueError m))"
    using fit_no_fun_entry by blast
  have 5: "mat_morph p = Some ds \<and> d \<in> set ds \<and> fit env (h, p) = (Inr (), (h', p')) \<longrightarrow>
      dict_get (h' d) ''kernel'' =
        (if dict_has (h d) ''kernel'' then dict_get (h d) ''kernel'' else rect_5x5) \<and>
      fst (fit env (explicit_kernels h ds, p)) = Inr () \<and>
      fst (run env (snd (fit env (explicit_kernels h ds, p))) Xs) = fst (run env (h', p') Xs)"
    using fit_kernel_values fit_explicit_kernels by blast
  show ?thesis
    using 1 2 3 4 5 by blast
qed


theorem fit_validation_witness:
  "blur empty_blur_gofpid = Some 3 \<and> example_heap 3 = [] \<and>
   fit_blur example_heap (blur empty_blur_gofpid) = Inr example_heap \<and>
   denoise toy_cv example_heap (blur empty_blur_gofpid) frame_a = Inr frame_a \<and>
   blur no_fun_blur_gofpid = Some 4 \<and> example_heap 4 \<noteq> [] \<and>
   fit toy_cv (example_heap, no_fun_blur_gofpid) =
     (Inl (ValueError BlurNoFun), (example_heap, no_fun_blur_gofpid)) \<and>
   blur example_gofpid = Some 0 \<and> dict_has (example_heap 0) ''fun'' \<and>
   fit toy_cv (example_heap, example_gofpid) = (Inr (), example_fitted) \<and>
   dict_get (fst example_fitted 0) ''ksize'' = VTuple [3, 3] \<and>
   dict_get (fst example_fitted 0) ''borderType'' = BORDER_DEFAULT \<and>
   mat_morph broken_gofpid = Some [1, 5] \<and>
   fst (fit toy_cv (example_heap, broken_gofpid)) = Inl (ValueError MatMorphNoFun) \<and>
   mat_morph example_gofpid = Some [2, 1] \<and>
   dict_get (fst example_fitted 1) ''kernel'' = rect_5x5 \<and>
   dict_get (fst example_fitted 2) ''kernel'' = VNone \<and>
   explicit_kernels example_heap [2, 1] 1 = [(''fun'', VFun Erode), (''kernel'', rect_5x5)] \<and>
   fst (fit toy_cv (explicit_kernels example_heap [2, 1], example_gofpid)) = Inr () \<and>
   fst (run toy_cv (snd (fit toy_cv (explicit_kernels example_heap [2, 1], example_gofpid)))
          [frame_a, frame_b]) = [Inr 0, Inr 1]"
proof -
  have e: "blur empty_blur_gofpid = Some 3 \<and> example_heap 3 = []"
    by (simp add: model_defs empty_blur_gofpid_def)
  have n: "blur no_fun_blur_gofpid = Some 4 \<and> example_heap 4 \<noteq> [] \<and>
           \<not> dict_has (example_heap 4) ''fun''"
    by (simp add: model_defs no_fun_blur_gofpid_def)
  have b: "blur example_gofpid = Some 0 \<and> dict_has (example_heap 0) ''fun'' \<and>
           \<not> dict_has (example_heap 0) ''ksize'' \<and> \<not> dict_has (example_heap 0) ''borderType''"
    by (simp add: model_defs)
  have m: "mat_morph broken_gofpid = Some [1, 5] \<and> \<not> dict_has (example_heap 5) ''fun''"
    by (simp add: model_defs example_defs)
  have k: "mat_morph example_gofpid = Some [2, 1] \<and> \<not> dict_has (example_heap 1) ''kernel'' \<and>
           dict_has (example_heap 2) ''kernel'' \<and> dict_get (example_heap 2) ''kernel'' = VNone"
    by (simp add: model_defs)
  have x: "explicit_kernels example_heap [2, 1] 1 = [(''fun'', VFun Erode), (''kernel'', rect_5x5)]"
    by (simp add: explicit_kernels_def model_defs)
  have f: "fit toy_cv (example_heap, example_gofpid) = (Inr (), (fst example_fitted, snd example_fitted))"
    using fit_example by simp
  have r: "fst (run toy_cv (fst example_fitted, snd example_fitted) [frame_a, frame_b]) = [Inr 0, Inr 1]"
    using run_example by simp
  note fv = fit_validation [where env = toy_cv and h = example_heap and X = frame_a
      and Xs = "[frame_a, frame_b]" and r = "Inr ()" and h' = "fst example_fitted"
      and p' = "snd example_fitted"]
  have 1: "fit_blur example_heap (blur empty_blur_gofpid) = Inr example_heap \<and>
           denoise toy_cv example_heap (blur empty_blur_gofpid) frame_a = Inr frame_a"
    using fv [where p = empty_blur_gofpid and a = 3 and ds = "[]" and d = 0] e by blast
  have 2: "fit toy_cv (example_heap, no_fun_blur_gofpid) =
             (Inl (ValueError BlurNoFun), (example_heap, no_fun_blur_gofpid))"
    using fv [where p = no_fun_blur_gofpid and a = 4 and ds = "[]" and d = 0] n by blast
  have 3: "dict_get (fst example_fitted 0) ''ksize'' = VTuple [3, 3] \<and>
           dict_get (fst example_fitted 0) ''borderType'' = BORDER_DEFAULT \<and>
           dict_get (fst example_fitted 1) ''kernel'' = rect_5x5 \<and>
           fst (fit toy_cv (explicit_kernels example_heap [2, 1], example_gofpid)) = Inr () \<and>
           fst (run toy_cv (snd (fit toy_cv (explicit_kernels example_heap [2, 1], example_gofpid)))
                  [frame_a, frame_b]) = [Inr 0, Inr 1]"
    using fv [where p = example_gofpid and a = 0 and ds = "[2, 1]" and d = 1] b k f r by simp
  have 4: "dict_get (fst example_fitted 2) ''kernel'' = VNone"
    using fv [where p = example_gofpid and a = 0 and ds = "[2, 1]" and d = 2] k f by simp
  have 5: "\<exists>m. fst (fit toy_cv (example_heap, broken_gofpid)) = Inl (ValueError m)"
    using fv [where p = broken_gofpid and a = 0 and ds = "[1, 5]" and d = 5] m by simp
  show ?thesis
    using 1 2 3 4 5 e n b m k x f fit_broken by simp
qed

section \<open>A configuration error after the subtractor is bound\<close>

text \<open>
  Claim C2. \<^verbatim>\<open>fit\<close> checks \<^verbatim>\<open>mat_morph\<close> (lines 105 to 113) after it has bound the
  background subtractor (lines 98 to 101). With an entry that has no \<^verbatim>\<open>fun\<close> it raises
  the configuration error and leaves \<^verbatim>\<open>_frg_detect_mth\<close> bound, in any environment: the
  object is not in the state it was constructed in, unlike after the two other
  configuration errors (last two lines). In that state \<^verbatim>\<open>predict\<close> applies the subtractor
  to the frame, which updates its model, before it raises \<^verbatim>\<open>TypeError\<close> at the entry; and
  once the caller has written a \<^verbatim>\<open>fun\<close> into the entry, \<^verbatim>\<open>predict\<close> returns a verdict
  although \<^verbatim>\<open>fit\<close> has never returned.
\<close>

theorem fit_raises_after_binding:
  "frg_detect_mth (snd (snd (fit env (example_heap, init None (VStr ''MOG2'') (Some [1, 5])))))
     = Some (createBackgroundSubtractorMOG2 env) \<and>
   fit toy_cv (example_heap, broken_gofpid) =
     (Inl (ValueError MatMorphNoFun),
      (example_heap(1 := [(''fun'', VFun Erode), (''kernel'', rect_5x5)]),
       broken_gofpid\<lparr>frg_detect_mth := Some None\<rparr>)) \<and>
   predict toy_cv
     (example_heap(1 := [(''fun'', VFun Erode), (''kernel'', rect_5x5)]),
      broken_gofpid\<lparr>frg_detect_mth := Some None\<rparr>) frame_a =
     (Inl TypeError,
      (example_heap(1 := [(''fun'', VFun Erode), (''kernel'', rect_5x5)]),
       broken_gofpid\<lparr>frg_detect_mth := Some (Some frame_a)\<rparr>)) \<and>
   predict toy_cv
     (example_heap(1 := [(''fun'', VFun Erode), (''kernel'', rect_5x5)],
                   5 := [(''kernel'', rect_5x5), (''fun'', VFun Dilate)]),
      broken_gofpid\<lparr>frg_detect_mth := Some None\<rparr>) frame_a =
     (Inr 0,
      (example_heap(1 := [(''fun'', VFun Erode), (''kernel'', rect_5x5)],
                    5 := [(''kernel'', rect_5x5), (''fun'', VFun Dilate)]),
       broken_gofpid\<lparr>frg_detect_mth := Some (Some frame_a), motion_mask := Some zeros_2x2\<rparr>)) \<and>
   frg_detect_mth (snd (snd (fit toy_cv (example_heap, unknown_gofpid)))) = None \<and>
   frg_detect_mth (snd (snd (fit toy_cv (example_heap, no_fun_blur_gofpid)))) = None"
proof -
  have "frg_detect_mth (snd (snd (fit env (example_heap, init None (VStr ''MOG2'') (Some [1, 5])))))
     = Some (createBackgroundSubtractorMOG2 env)"
    by (simp add: fit_def fit_blur_def fit_frg_detect_def init_def example_heap_def dict_has_def
        rect_5x5_def)
  moreover have "predict toy_cv
     (example_heap(1 := [(''fun'', VFun Erode), (''kernel'', rect_5x5)]),
      broken_gofpid\<lparr>frg_detect_mth := Some None\<rparr>) frame_a =
     (Inl TypeError,
      (example_heap(1 := [(''fun'', VFun Erode), (''kernel'', rect_5x5)]),
       broken_gofpid\<lparr>frg_detect_mth := Some (Some frame_a)\<rparr>))"
    by (simp add: model_defs example_defs)
  moreover have "predict toy_cv
     (example_heap(1 := [(''fun'', VFun Erode), (''kernel'', rect_5x5)],
                   5 := [(''kernel'', rect_5x5), (''fun'', VFun Dilate)]),
      broken_gofpid\<lparr>frg_detect_mth := Some None\<rparr>) frame_a =
     (Inr 0,
      (example_heap(1 := [(''fun'', VFun Erode), (''kernel'', rect_5x5)],
                    5 := [(''kernel'', rect_5x5), (''fun'', VFun Dilate)]),
       broken_gofpid\<lparr>frg_detect_mth := Some (Some frame_a), motion_mask := Some zeros_2x2\<rparr>))"
    by (simp add: model_defs example_defs zeros_2x2_def)
  moreover have "frg_detect_mth (snd (snd (fit toy_cv (example_heap, no_fun_blur_gofpid)))) = None"
    by (simp add: model_defs no_fun_blur_gofpid_def)
  ultimately show ?thesis
    using fit_broken fit_unknown by (simp add: example_defs init_def)
qed

end
